theory Spec2Isabelle
  imports Complex_Main
begin

section \<open>Python values, errors and sub-models\<close>

text \<open>
  The embedding follows \<^verbatim>\<open>src/dreamerv2/training/trainer.py\<close>. Floating-point tensors are
  modelled with real entries, so every statement below is about the exact arithmetic the
  code spells out; rounding is outside the model. Gradient bookkeeping (\<^verbatim>\<open>detach\<close>,
  \<^verbatim>\<open>torch.no_grad\<close>, \<^verbatim>\<open>FreezeParameters\<close>) does not change any value and is therefore the
  identity here.
\<close>

datatype py_error =
    AttributeError string
  | KeyError string
  | NotImplementedError
  | IndexError
  | TypeError
  | RuntimeError
  | NanResult

text \<open>
  A call either raises or returns: \<open>Inl\<close> is the exception, \<open>Inr\<close> the value. \<open>bindE\<close>
  runs the next statement on the value and lets an exception pass.
\<close>

definition bindE :: "py_error + 'a \<Rightarrow> ('a \<Rightarrow> py_error + 'b) \<Rightarrow> py_error + 'b" where
  "bindE r f = (case r of Inl e \<Rightarrow> Inl e | Inr x \<Rightarrow> f x)"

text \<open>
  The values a \<^verbatim>\<open>training_config\<close> entry holds: \<^verbatim>\<open>None\<close>, a bool, an int or a float.
  \<open>truthy\<close> is Python's truth test (\<^verbatim>\<open>if training_config['use_fixed_target']:\<close>) and
  \<open>num\<close> is the number a value stands for in arithmetic with a tensor (\<^verbatim>\<open>None * tensor\<close>
  raises \<^verbatim>\<open>TypeError\<close>).
\<close>

datatype pyval = PyNone | PyBool bool | PyInt int | PyFloat real

fun truthy :: "pyval \<Rightarrow> bool" where
  "truthy PyNone = False"
| "truthy (PyBool b) = b"
| "truthy (PyInt i) = (i \<noteq> 0)"
| "truthy (PyFloat r) = (r \<noteq> 0)"

fun num :: "pyval \<Rightarrow> py_error + real" where
  "num PyNone = Inl TypeError"
| "num (PyBool b) = Inr (if b then 1 else 0)"
| "num (PyInt i) = Inr (of_int i)"
| "num (PyFloat r) = Inr r"

type_synonym training_config = "string \<rightharpoonup> pyval"

definition cfg_get :: "training_config \<Rightarrow> string \<Rightarrow> py_error + pyval" where
  "cfg_get training_config k =
     (case training_config k of None \<Rightarrow> Inl (KeyError k) | Some v \<Rightarrow> Inr v)"

text \<open>
  A sub-model (\<^verbatim>\<open>torch.nn.Module\<close>) is represented by its \<^verbatim>\<open>state_dict()\<close>: the named
  parameter tensors in their order, each tensor flattened, so that its length stands for its
  shape.
\<close>

type_synonym state_dict = "(string \<times> real list) list"
type_synonym nn_module = state_dict

definition state_dict :: "nn_module \<Rightarrow> state_dict" where
  "state_dict m = m"

text \<open>
  \<^verbatim>\<open>Module.load_state_dict(sd)\<close> of torch with its default \<^verbatim>\<open>strict=True\<close>: every own
  parameter that \<open>sd\<close> holds with the same shape is overwritten; afterwards a missing key, an
  unexpected key or a shape mismatch raises \<^verbatim>\<open>RuntimeError\<close>. The module as it is left
  behind is returned together with the error, if any.
\<close>

definition load_param :: "state_dict \<Rightarrow> string \<times> real list \<Rightarrow> string \<times> real list" where
  "load_param sd kv =
     (case map_of sd (fst kv) of
        None \<Rightarrow> kv
      | Some v \<Rightarrow> if length v = length (snd kv) then (fst kv, v) else kv)"

definition param_loadable :: "state_dict \<Rightarrow> string \<times> real list \<Rightarrow> bool" where
  "param_loadable sd kv =
     (case map_of sd (fst kv) of
        None \<Rightarrow> False
      | Some v \<Rightarrow> length v = length (snd kv))"

definition load_state_dict :: "nn_module \<Rightarrow> state_dict \<Rightarrow> nn_module \<times> py_error option" where
  "load_state_dict m sd =
     (map (load_param sd) m,
      if list_all (param_loadable sd) m \<and> list_all (\<lambda>k. k \<in> set (map fst m)) (map fst sd)
      then None else Some RuntimeError)"

section \<open>The Trainer object\<close>

datatype submodel =
    M_RSSM | M_ActionModel | M_RewardDecoder | M_ValueModel
  | M_TargetValueModel | M_DiscountModel | M_ObsEncoder | M_ObsDecoder

text \<open>
  \<^verbatim>\<open>optim.Adam(get_parameters(models), lr)\<close>: the optimizer is kept as the list of sub-models
  whose parameters it owns and its learning rate. The optimizer class and
  \<^verbatim>\<open>get_parameters\<close> lie outside the source file; they are taken to accept what they get.
\<close>

record optimizer =
  opt_models :: "submodel list"
  opt_lr :: pyval

text \<open>
  The attributes of a \<^verbatim>\<open>Trainer\<close>. \<^verbatim>\<open>TargetValueModel\<close> and \<^verbatim>\<open>DiscountModel\<close> are assigned
  under a condition only, so they are optional: \<open>None\<close> is the attribute that was never set.
  \<open>lambda_p\<close> is the attribute \<^verbatim>\<open>lambda_\<close>.
  The lists \<^verbatim>\<open>world_list\<close>, \<^verbatim>\<open>actor_list\<close>, \<^verbatim>\<open>value_list\<close> and \<^verbatim>\<open>actorcritic_list\<close> hold
  references to the sub-models; they are kept as lists of the attribute names.
\<close>

record trainer =
  RSSM :: nn_module
  ActionModel :: nn_module
  RewardDecoder :: nn_module
  ValueModel :: nn_module
  TargetValueModel :: "nn_module option"
  DiscountModel :: "nn_module option"
  ObsEncoder :: nn_module
  ObsDecoder :: nn_module
  action_size :: nat
  pixels :: bool
  use_fixed_target :: pyval
  kl_balancing_scale :: pyval
  seq_len :: pyval
  batch_size :: pyval
  collect_intervals :: pyval
  seed_episodes :: pyval
  model_lr :: pyval
  actor_lr :: pyval
  value_lr :: pyval
  discount :: pyval
  lambda_p :: pyval
  horizon :: pyval
  kl_scale :: pyval
  pcont_scale :: pyval
  actor_entropy_scale :: pyval
  grad_clip_norm :: pyval
  world_list :: "submodel list"
  actor_list :: "submodel list"
  value_list :: "submodel list"
  actorcritic_list :: "submodel list"
  model_optimizer :: "optimizer option"
  actor_optimizer :: "optimizer option"
  value_optimizer :: "optimizer option"

text \<open>
  What the constructors called in \<^verbatim>\<open>__init__\<close> return: the freshly initialised sub-models.
  The classes \<^verbatim>\<open>RSSM\<close>, \<^verbatim>\<open>ActionModel\<close> and \<^verbatim>\<open>DenseModel\<close> lie outside the source file.
\<close>

record fresh_models =
  new_RSSM :: nn_module
  new_ActionModel :: nn_module
  new_RewardDecoder :: nn_module
  new_ValueModel :: nn_module
  new_TargetValueModel :: nn_module
  new_DiscountModel :: nn_module
  new_ObsEncoder :: nn_module
  new_ObsDecoder :: nn_module

text \<open>\<^verbatim>\<open>Trainer.optim_initialize\<close> (lines 76-85).\<close>

definition optim_initialize :: "trainer \<Rightarrow> py_error + trainer" where
  "optim_initialize self =
     (case DiscountModel self of
        None \<Rightarrow> Inl (AttributeError ''DiscountModel'')
      | Some _ \<Rightarrow>
          let wl = [M_ObsEncoder, M_RSSM, M_RewardDecoder, M_ObsDecoder, M_DiscountModel];
              al = [M_ActionModel];
              vl = [M_ValueModel]
          in (if truthy (use_fixed_target self) \<and> TargetValueModel self = None
              then Inl (AttributeError ''TargetValueModel'')
              else
                let vl' = (if truthy (use_fixed_target self) then vl @ [M_TargetValueModel] else vl)
                in Inr (self\<lparr>world_list := wl, actor_list := al, value_list := vl',
                      actorcritic_list := [M_ActionModel, M_ValueModel],
                      model_optimizer := Some \<lparr>opt_models = wl, opt_lr = model_lr self\<rparr>,
                      actor_optimizer := Some \<lparr>opt_models = al, opt_lr = actor_lr self\<rparr>,
                      value_optimizer := Some \<lparr>opt_models = vl', opt_lr = value_lr self\<rparr>\<rparr>)))"

text \<open>
  The configuration keys read one after the other by lines 60-73 of \<^verbatim>\<open>__init__\<close>; the first
  one that is missing raises \<^verbatim>\<open>KeyError\<close>.
\<close>

fun cfg_get_all :: "training_config \<Rightarrow> string list \<Rightarrow> py_error + pyval list" where
  "cfg_get_all training_config [] = Inr []"
| "cfg_get_all training_config (k # ks) =
     bindE (cfg_get training_config k) (\<lambda>v.
     bindE (cfg_get_all training_config ks) (\<lambda>vs. Inr (v # vs)))"

definition scalar_keys :: "string list" where
  "scalar_keys =
     [''seq_len'', ''batch_size'', ''collect_intervals'', ''seed_episodes'',
      ''model_learning_rate'', ''actor_learning_rate'', ''value_learning_rate'',
      ''discount'', ''lambda_'', ''horizon'', ''kl_scale'', ''pcont_scale'',
      ''actor_entropy_scale'', ''grad_clip_norm'']"

text \<open>
  The object as the assignments of lines 36-73 of \<^verbatim>\<open>__init__\<close> leave it, given the values
  read from the configuration; the lists and optimizers are not assigned yet.
\<close>

definition init_attributes ::
  "fresh_models \<Rightarrow> nat \<Rightarrow> bool \<Rightarrow> nn_module option \<Rightarrow> pyval \<Rightarrow> pyval \<Rightarrow> pyval \<Rightarrow> pyval list
     \<Rightarrow> trainer" where
  "init_attributes fresh action_size_arg pixels_arg tvm udm uft kbs vs =
     \<lparr>RSSM = new_RSSM fresh,
      ActionModel = new_ActionModel fresh,
      RewardDecoder = new_RewardDecoder fresh,
      ValueModel = new_ValueModel fresh,
      TargetValueModel = tvm,
      DiscountModel = (if truthy udm then Some (new_DiscountModel fresh) else None),
      ObsEncoder = new_ObsEncoder fresh,
      ObsDecoder = new_ObsDecoder fresh,
      action_size = action_size_arg,
      pixels = pixels_arg,
      use_fixed_target = uft,
      kl_balancing_scale = kbs,
      seq_len = vs ! 0,
      batch_size = vs ! 1,
      collect_intervals = vs ! 2,
      seed_episodes = vs ! 3,
      model_lr = vs ! 4,
      actor_lr = vs ! 5,
      value_lr = vs ! 6,
      discount = vs ! 7,
      lambda_p = vs ! 8,
      horizon = vs ! 9,
      kl_scale = vs ! 10,
      pcont_scale = vs ! 11,
      actor_entropy_scale = vs ! 12,
      grad_clip_norm = vs ! 13,
      world_list = [], actor_list = [], value_list = [], actorcritic_list = [],
      model_optimizer = None, actor_optimizer = None, value_optimizer = None\<rparr>"

text \<open>
  Lines 42-44: the target value model, when configured, starts as a hard copy of the value
  model.
\<close>

definition init_target ::
  "fresh_models \<Rightarrow> pyval \<Rightarrow> py_error + nn_module option" where
  "init_target fresh uft =
     (if truthy uft
      then (case load_state_dict (new_TargetValueModel fresh) (state_dict (new_ValueModel fresh)) of
              (m, None) \<Rightarrow> Inr (Some m)
            | (m, Some e) \<Rightarrow> Inl e)
      else Inr None)"

text \<open>
  \<^verbatim>\<open>Trainer.__init__\<close> (lines 16-74). An exception leaves no object behind, so the result is
  either the error or the finished trainer. The steps keep the order of the source:
  the target value model and its first hard copy, the discount model, the \<^verbatim>\<open>pixels\<close>
  guard, the hyperparameters, \<^verbatim>\<open>optim_initialize\<close>.
\<close>

definition Trainer_init ::
  "fresh_models \<Rightarrow> nat \<Rightarrow> training_config \<Rightarrow> bool \<Rightarrow> py_error + trainer" where
  "Trainer_init fresh action_size_arg training_config pixels_arg =
     bindE (cfg_get training_config ''use_fixed_target'') (\<lambda>uft.
     bindE (init_target fresh uft) (\<lambda>tvm.
     bindE (cfg_get training_config ''use_discount_model'') (\<lambda>udm.
     if pixels_arg then Inl NotImplementedError
     else
       bindE (cfg_get training_config ''use_fixed_target'') (\<lambda>uft'.
       bindE (cfg_get training_config ''use_kl_balancing'') (\<lambda>ukb.
       bindE (if truthy ukb then cfg_get training_config ''kl_balancing_scale'' else Inr PyNone)
         (\<lambda>kbs.
       bindE (cfg_get_all training_config scalar_keys) (\<lambda>vs.
         optim_initialize
           (init_attributes fresh action_size_arg pixels_arg tvm udm uft' kbs vs))))))))"

text \<open>\<^verbatim>\<open>Trainer.update_target\<close> (lines 99-100): the trainer afterwards, and the exception if any.\<close>

definition update_target :: "trainer \<Rightarrow> trainer \<times> py_error option" where
  "update_target self =
     (case TargetValueModel self of
        None \<Rightarrow> (self, Some (AttributeError ''TargetValueModel''))
      | Some tm \<Rightarrow>
          (case load_state_dict tm (state_dict (ValueModel self)) of
             (tm', err) \<Rightarrow> (self\<lparr>TargetValueModel := Some tm'\<rparr>, err)))"

text \<open>The entry points that only raise (lines 247-254).\<close>

definition private_actor_loss :: "trainer \<Rightarrow> py_error + real" where
  "private_actor_loss self = Inl NotImplementedError"

definition private_value_loss :: "trainer \<Rightarrow> py_error + real" where
  "private_value_loss self = Inl NotImplementedError"

definition save_model :: "trainer \<Rightarrow> string \<Rightarrow> py_error + unit" where
  "save_model self save_name = Inl NotImplementedError"

section \<open>Tensors\<close>

text \<open>
  A tensor of shape \<^verbatim>\<open>[T, B, 1]\<close> (or \<^verbatim>\<open>[T, B]\<close>) is a list over time of rows over the
  batch. A model-state tensor \<^verbatim>\<open>[T, B, D]\<close> carries a vector at every position.
  \<open>x[:-1]\<close> is \<open>butlast x\<close>, \<open>x[1:]\<close> is \<open>tl x\<close>, \<open>x[:1]\<close> is \<open>take 1 x\<close>.
\<close>

type_synonym tensor = "real list list"
type_synonym modelstates = "real list list list"

fun collect :: "(py_error + 'a) list \<Rightarrow> py_error + 'a list" where
  "collect [] = Inr []"
| "collect (r # rs) = bindE r (\<lambda>x. bindE (collect rs) (\<lambda>xs. Inr (x # xs)))"

text \<open>
  Elementwise operations broadcast as torch does: along a dimension the two sizes agree, or
  one of them is 1 and that entry is repeated; anything else raises \<^verbatim>\<open>RuntimeError\<close>.
\<close>

definition broadcast :: "('a \<Rightarrow> 'b \<Rightarrow> py_error + 'c) \<Rightarrow> 'a list \<Rightarrow> 'b list \<Rightarrow> py_error + 'c list" where
  "broadcast f xs ys =
     (if length xs = length ys then collect (map2 f xs ys)
      else if length xs = 1 then collect (map (f (hd xs)) ys)
      else if length ys = 1 then collect (map (\<lambda>x. f x (hd ys)) xs)
      else Inl RuntimeError)"

definition tensor_op ::
  "('a \<Rightarrow> 'b \<Rightarrow> 'c) \<Rightarrow> 'a list list \<Rightarrow> 'b list list \<Rightarrow> py_error + 'c list list" where
  "tensor_op f = broadcast (broadcast (\<lambda>a b. Inr (f a b)))"

definition numel :: "'a list list \<Rightarrow> nat" where
  "numel x = length (concat x)"

text \<open>
  \<^verbatim>\<open>torch.mean(x)\<close> over all entries. Over no entries torch returns \<^verbatim>\<open>nan\<close>, which no real
  number stands for: the model stops there with \<open>NanResult\<close>.
\<close>

definition torch_mean :: "tensor \<Rightarrow> py_error + real" where
  "torch_mean x =
     (if numel x = 0 then Inl NanResult else Inr (sum_list (concat x) / real (numel x)))"

text \<open>\<^verbatim>\<open>torch.mean(x, dim=1)\<close>: the mean over the batch at every time step.\<close>

definition row_mean :: "real list \<Rightarrow> py_error + real" where
  "row_mean r = (if r = [] then Inl NanResult else Inr (sum_list r / real (length r)))"

definition torch_mean_dim1 :: "tensor \<Rightarrow> py_error + real list" where
  "torch_mean_dim1 x = collect (map row_mean x)"

text \<open>\<^verbatim>\<open>torch.cumprod(x, 0)\<close>: the running product along time, batch entry by batch entry.\<close>

fun cumprod_from :: "real list \<Rightarrow> tensor \<Rightarrow> tensor" where
  "cumprod_from acc [] = []"
| "cumprod_from acc (r # rs) = map2 (*) acc r # cumprod_from (map2 (*) acc r) rs"

fun torch_cumprod :: "tensor \<Rightarrow> tensor" where
  "torch_cumprod [] = []"
| "torch_cumprod (r # rs) = r # cumprod_from r rs"

text \<open>\<^verbatim>\<open>torch.cat([torch.ones_like(x[:1]), x[1:]])\<close> (line 192).\<close>

definition ones_like :: "tensor \<Rightarrow> tensor" where
  "ones_like x = map (map (\<lambda>_. 1)) x"

definition ones_then_tail :: "tensor \<Rightarrow> tensor" where
  "ones_then_tail x = ones_like (take 1 x) @ tl x"

text \<open>\<^verbatim>\<open>x[-1]\<close> raises \<^verbatim>\<open>IndexError\<close> on a tensor with no time step.\<close>

definition last_step :: "'a list \<Rightarrow> py_error + 'a" where
  "last_step x = (if x = [] then Inl IndexError else Inr (last x))"

text \<open>\<^verbatim>\<open>self.seq_len - 1\<close> on the stored configuration value.\<close>

fun py_minus1 :: "pyval \<Rightarrow> py_error + pyval" where
  "py_minus1 PyNone = Inl TypeError"
| "py_minus1 (PyBool b) = Inr (PyInt ((if b then 1 else 0) - 1))"
| "py_minus1 (PyInt i) = Inr (PyInt (i - 1))"
| "py_minus1 (PyFloat r) = Inr (PyFloat (r - 1))"

section \<open>Collaborators outside the source file\<close>

text \<open>
  A decoded distribution at one position of a batch: its mean and its log-likelihood
  function. A head called on a model-state tensor yields one of these per position
  (\<^verbatim>\<open>Independent\<close> over the event dimensions), and a head without a distribution yields the
  number itself.
\<close>

record 'x edist =
  e_mean :: 'x
  e_log_prob :: "'x \<Rightarrow> real"

definition dist_mean :: "'x edist list list \<Rightarrow> 'x list list" where
  "dist_mean d = map (map e_mean) d"

definition log_prob :: "'x edist list list \<Rightarrow> 'x list list \<Rightarrow> py_error + tensor" where
  "log_prob d x = tensor_op e_log_prob d x"

text \<open>
  The functions the trainer calls and the source file does not hold: the forward passes of
  the sub-models (each a function of the sub-model's parameters, applied position by
  position), the RSSM roll-outs, the helpers of \<^verbatim>\<open>dreamerv2.utils\<close> and torch's
  \<^verbatim>\<open>kl_divergence\<close>. They are parameters of the model. A roll-out draws random samples; the
  parameter stands for the roll-out with its draws fixed. \<open>'s\<close> is \<^verbatim>\<open>RSSMContState\<close> and
  \<open>'d\<close> the distribution \<^verbatim>\<open>get_dist\<close> builds from it.
\<close>

record ('s, 'd) externals =
  ObsEncoder_call :: "nn_module \<Rightarrow> real list \<Rightarrow> real list"
  ObsDecoder_call :: "nn_module \<Rightarrow> real list \<Rightarrow> (real list) edist"
  RewardDecoder_call :: "nn_module \<Rightarrow> real list \<Rightarrow> real edist"
  DiscountModel_call :: "nn_module \<Rightarrow> real list \<Rightarrow> real edist"
  ValueModel_call :: "nn_module \<Rightarrow> real list \<Rightarrow> real"
  init_rssm_state :: "nn_module \<Rightarrow> pyval \<Rightarrow> py_error + 's"
  rollout_observation ::
    "nn_module \<Rightarrow> pyval \<Rightarrow> modelstates \<Rightarrow> modelstates \<Rightarrow> 's \<Rightarrow> py_error + 's \<times> 's"
  rollout_imagination :: "nn_module \<Rightarrow> pyval \<Rightarrow> nn_module \<Rightarrow> 's \<Rightarrow> py_error + 's \<times> tensor"
  get_modelstate :: "'s \<Rightarrow> modelstates"
  get_dist :: "'s \<Rightarrow> 'd"
  rssm_seq_to_batch :: "'s \<Rightarrow> pyval \<Rightarrow> pyval \<Rightarrow> py_error + 's"
  kl_divergence :: "'d \<Rightarrow> 'd \<Rightarrow> py_error + tensor"
  compute_return :: "tensor \<Rightarrow> tensor \<Rightarrow> tensor \<Rightarrow> real list \<Rightarrow> pyval \<Rightarrow> py_error + tensor"

text \<open>
  Modelled from the spec: \<^verbatim>\<open>rssm_detach\<close> of \<^verbatim>\<open>dreamerv2.utils.rssm\<close> is missing from the
  sources. The spec calls it stop-gradient, which "blocks gradient flow through that operand
  only": the state it returns holds the same values.
\<close>

definition rssm_detach :: "'s \<Rightarrow> 's" where
  "rssm_detach s = s"

text \<open>\<^verbatim>\<open>tensor.detach()\<close>: the same values, cut off from the gradient graph.\<close>

definition torch_detach :: "'a \<Rightarrow> 'a" where
  "torch_detach x = x"

text \<open>A head applied to a model-state tensor, position by position.\<close>

definition call_head :: "(real list \<Rightarrow> 'x) \<Rightarrow> modelstates \<Rightarrow> 'x list list" where
  "call_head f ms = map (map f) ms"

section \<open>The world-model loss\<close>

text \<open>\<^verbatim>\<open>_obs_loss\<close>, \<^verbatim>\<open>_reward_loss\<close> and \<^verbatim>\<open>_pcont_loss\<close> (lines 223-225 and 238-245).\<close>

definition private_obs_loss :: "(real list) edist list list \<Rightarrow> modelstates \<Rightarrow> py_error + real" where
  "private_obs_loss obs_dist obs =
     bindE (log_prob obs_dist obs) (\<lambda>lp. bindE (torch_mean lp) (\<lambda>m. Inr (- m)))"

definition private_reward_loss :: "real edist list list \<Rightarrow> tensor \<Rightarrow> py_error + real" where
  "private_reward_loss reward_dist rewards =
     bindE (log_prob reward_dist rewards) (\<lambda>lp. bindE (torch_mean lp) (\<lambda>m. Inr (- m)))"

definition private_pcont_loss :: "real edist list list \<Rightarrow> tensor \<Rightarrow> py_error + real" where
  "private_pcont_loss pcont_dist nonterms =
     (let pcont_target = nonterms
      in bindE (log_prob pcont_dist pcont_target) (\<lambda>lp. bindE (torch_mean lp) (\<lambda>m. Inr (- m))))"

text \<open>
  \<^verbatim>\<open>_kl_loss\<close> (lines 227-236). \<^verbatim>\<open>self.kl_balancing_scale\<close> is \<^verbatim>\<open>None\<close> unless KL balancing is
  switched on.
\<close>

definition private_kl_loss ::
  "('s, 'd) externals \<Rightarrow> trainer \<Rightarrow> 's \<Rightarrow> 's \<Rightarrow> py_error + 'd \<times> 'd \<times> real" where
  "private_kl_loss ext self prior posterior =
     (let prior_dist = get_dist ext prior;
          post_dist = get_dist ext posterior
      in if kl_balancing_scale self \<noteq> PyNone
         then
           bindE (num (kl_balancing_scale self)) (\<lambda>scale.
           bindE (kl_divergence ext (get_dist ext (rssm_detach posterior)) prior_dist) (\<lambda>kl1.
           bindE (torch_mean kl1) (\<lambda>m1.
           bindE (kl_divergence ext post_dist (get_dist ext (rssm_detach prior))) (\<lambda>kl2.
           bindE (torch_mean kl2) (\<lambda>m2.
             Inr (prior_dist, post_dist, scale * m1 + (1 - scale) * m2))))))
         else
           bindE (kl_divergence ext post_dist prior_dist) (\<lambda>kl.
           bindE (torch_mean kl) (\<lambda>m.
             Inr (prior_dist, post_dist, m))))"

record ('s, 'd) representation_result =
  out_model_loss :: real
  out_div :: real
  out_obs_loss :: real
  out_reward_loss :: real
  out_pcont_loss :: real
  out_prior_dist :: 'd
  out_post_dist :: 'd
  out_posterior :: 's

text \<open>
  The sub-model an attribute names, or \<^verbatim>\<open>AttributeError\<close> when it was never assigned.
\<close>

definition get_DiscountModel :: "trainer \<Rightarrow> py_error + nn_module" where
  "get_DiscountModel self =
     (case DiscountModel self of None \<Rightarrow> Inl (AttributeError ''DiscountModel'') | Some m \<Rightarrow> Inr m)"

definition get_TargetValueModel :: "trainer \<Rightarrow> py_error + nn_module" where
  "get_TargetValueModel self =
     (case TargetValueModel self of
        None \<Rightarrow> Inl (AttributeError ''TargetValueModel'') | Some m \<Rightarrow> Inr m)"

text \<open>
  \<^verbatim>\<open>representation_loss\<close> (lines 206-221). \<open>obs\<close> and \<open>actions\<close> are \<^verbatim>\<open>[seq_len, batch, *]\<close>,
  \<open>rewards\<close> and \<open>nonterms\<close> are \<^verbatim>\<open>[seq_len, batch, 1]\<close>.
\<close>

definition representation_loss ::
  "('s, 'd) externals \<Rightarrow> trainer \<Rightarrow> modelstates \<Rightarrow> modelstates \<Rightarrow> tensor \<Rightarrow> tensor
     \<Rightarrow> py_error + ('s, 'd) representation_result" where
  "representation_loss ext self obs actions rewards nonterms =
     (let embed = call_head (ObsEncoder_call ext (ObsEncoder self)) obs
      in bindE (init_rssm_state ext (RSSM self) (batch_size self)) (\<lambda>prev_rssm_state.
         bindE (rollout_observation ext (RSSM self) (seq_len self) embed actions prev_rssm_state)
           (\<lambda>(prior, posterior).
         let post_modelstate = get_modelstate ext posterior;
             obs_dist = call_head (ObsDecoder_call ext (ObsDecoder self)) post_modelstate;
             reward_dist =
               call_head (RewardDecoder_call ext (RewardDecoder self)) (butlast post_modelstate)
         in bindE (get_DiscountModel self) (\<lambda>dm.
            let pcont_dist = call_head (DiscountModel_call ext dm) (butlast post_modelstate)
            in bindE (private_obs_loss obs_dist obs) (\<lambda>obs_loss.
               bindE (private_reward_loss reward_dist (tl rewards)) (\<lambda>reward_loss.
               bindE (private_pcont_loss pcont_dist (tl nonterms)) (\<lambda>pcont_loss.
               bindE (private_kl_loss ext self prior posterior) (\<lambda>(prior_dist, post_dist, kl_div).
               bindE (num (kl_scale self)) (\<lambda>kl_scale_v.
               bindE (num (pcont_scale self)) (\<lambda>pcont_scale_v.
                 Inr \<lparr>out_model_loss =
                        kl_scale_v * kl_div + reward_loss + obs_loss + pcont_scale_v * pcont_loss,
                      out_div = kl_div, out_obs_loss = obs_loss, out_reward_loss = reward_loss,
                      out_pcont_loss = pcont_loss, out_prior_dist = prior_dist,
                      out_post_dist = post_dist, out_posterior = posterior\<rparr>))))))))))"

section \<open>The actor and critic losses\<close>

text \<open>Lines 180-181: the imagined reward.\<close>

definition imag_reward_of :: "('s, 'd) externals \<Rightarrow> trainer \<Rightarrow> modelstates \<Rightarrow> tensor" where
  "imag_reward_of ext self imag_modelstates =
     (let imag_reward_dist = call_head (RewardDecoder_call ext (RewardDecoder self)) imag_modelstates
      in dist_mean imag_reward_dist)"

text \<open>Lines 182-185: the imagined value.\<close>

definition imag_value_of :: "('s, 'd) externals \<Rightarrow> trainer \<Rightarrow> modelstates \<Rightarrow> py_error + tensor" where
  "imag_value_of ext self imag_modelstates =
     (if truthy (use_fixed_target self)
      then bindE (get_TargetValueModel self)
             (\<lambda>tm. Inr (call_head (ValueModel_call ext tm) imag_modelstates))
      else Inr (call_head (ValueModel_call ext (ValueModel self)) imag_modelstates))"

text \<open>Lines 192-193: the discount weights.\<close>

definition discount_weights :: "tensor \<Rightarrow> tensor" where
  "discount_weights discount_arr =
     (let discount_arr' = ones_then_tail discount_arr
      in torch_cumprod (butlast discount_arr'))"

text \<open>Lines 194-195: the actor loss.\<close>

definition actor_loss_of :: "pyval \<Rightarrow> tensor \<Rightarrow> tensor \<Rightarrow> tensor \<Rightarrow> py_error + real" where
  "actor_loss_of entropy_scale discount_w lambda_returns policy_entropy =
     (let policy_entropy' = butlast policy_entropy
      in bindE (num entropy_scale) (\<lambda>c.
         bindE (tensor_op (+) lambda_returns (map (map (\<lambda>e. c * e)) policy_entropy')) (\<lambda>inner.
         bindE (tensor_op (*) discount_w inner) (\<lambda>weighted.
         bindE (torch_mean_dim1 weighted) (\<lambda>means.
           Inr (- sum_list means))))))"

text \<open>
  Lines 196-202: the value loss. \<^verbatim>\<open>.sum()\<close> leaves a single number, of which
  \<^verbatim>\<open>torch.mean\<close> is then taken.
\<close>

definition value_loss_of ::
  "('s, 'd) externals \<Rightarrow> trainer \<Rightarrow> modelstates \<Rightarrow> tensor \<Rightarrow> tensor \<Rightarrow> py_error + real" where
  "value_loss_of ext self imag_modelstates discount_w lambda_returns =
     (let value_modelstates = torch_detach (butlast imag_modelstates);
          value_discount = torch_detach discount_w;
          value_target = torch_detach lambda_returns;
          value_pred = call_head (ValueModel_call ext (ValueModel self)) value_modelstates
      in bindE (tensor_op (-) value_target value_pred) (\<lambda>err.
         bindE (tensor_op (*) value_discount err) (\<lambda>werr.
           torch_mean [[sum_list (concat (map (map (\<lambda>x. 0.5 * x ^ 2)) werr))]])))"

text \<open>\<^verbatim>\<open>actorcritc_loss\<close> (lines 170-204): the pair \<^verbatim>\<open>(actor_loss, value_loss)\<close>.\<close>

definition actorcritc_loss ::
  "('s, 'd) externals \<Rightarrow> trainer \<Rightarrow> 's \<Rightarrow> py_error + real \<times> real" where
  "actorcritc_loss ext self posterior =
     bindE (py_minus1 (seq_len self)) (\<lambda>seq_len1.
     bindE (rssm_seq_to_batch ext posterior (batch_size self) seq_len1) (\<lambda>batched.
     let batched_posterior = rssm_detach batched
     in bindE (rollout_imagination ext (RSSM self) (horizon self) (ActionModel self) batched_posterior)
          (\<lambda>(imag_rssm_states, policy_entropy).
        let imag_modelstates = get_modelstate ext imag_rssm_states;
            imag_reward = imag_reward_of ext self imag_modelstates
        in bindE (imag_value_of ext self imag_modelstates) (\<lambda>imag_value.
           bindE (get_DiscountModel self) (\<lambda>dm.
           let discount_arr = dist_mean (call_head (DiscountModel_call ext dm) imag_modelstates)
           in bindE (last_step imag_value) (\<lambda>bootstrap.
              bindE (compute_return ext (butlast imag_reward) (butlast imag_value)
                       (butlast discount_arr) bootstrap (lambda_p self)) (\<lambda>lambda_returns.
              let discount_w = discount_weights discount_arr
              in bindE (actor_loss_of (actor_entropy_scale self) discount_w lambda_returns
                          policy_entropy) (\<lambda>actor_loss.
                 bindE (value_loss_of ext self imag_modelstates discount_w lambda_returns)
                   (\<lambda>value_loss.
                   Inr (actor_loss, value_loss))))))))))"

section \<open>Saving and loading\<close>

type_synonym save_dict = "string \<rightharpoonup> state_dict"

text \<open>\<^verbatim>\<open>get_save_dict\<close> (lines 256-265).\<close>

definition get_save_dict :: "trainer \<Rightarrow> py_error + (string \<times> state_dict) list" where
  "get_save_dict self =
     bindE (get_DiscountModel self) (\<lambda>dm.
       Inr [(''RSSM'', state_dict (RSSM self)),
            (''ObsEncoder'', state_dict (ObsEncoder self)),
            (''ObsDecoder'', state_dict (ObsDecoder self)),
            (''RewardDecoder'', state_dict (RewardDecoder self)),
            (''ActionModel'', state_dict (ActionModel self)),
            (''ValueModel'', state_dict (ValueModel self)),
            (''DiscountModel'', state_dict dm)])"

text \<open>
  One line of \<^verbatim>\<open>load_save_dict\<close>: \<^verbatim>\<open>saved_dict[key]\<close> raises \<^verbatim>\<open>KeyError\<close> before the sub-model
  is touched; otherwise the sub-model loads the entry.
\<close>

definition load_entry :: "nn_module \<Rightarrow> save_dict \<Rightarrow> string \<Rightarrow> nn_module \<times> py_error option" where
  "load_entry m saved_dict key =
     (case saved_dict key of
        None \<Rightarrow> (m, Some (KeyError key))
      | Some sd \<Rightarrow> load_state_dict m sd)"

text \<open>
  \<^verbatim>\<open>load_save_dict\<close> (lines 267-274): the trainer as the call leaves it and the exception that
  ended it, if any. Every line mutates its sub-model in place, so what was loaded before an
  exception stays loaded.
\<close>

definition load_save_dict :: "trainer \<Rightarrow> save_dict \<Rightarrow> trainer \<times> py_error option" where
  "load_save_dict self saved_dict =
     (case load_entry (RSSM self) saved_dict ''RSSM'' of (m1, e1) \<Rightarrow>
      let s1 = self\<lparr>RSSM := m1\<rparr> in
      if e1 \<noteq> None then (s1, e1) else
     (case load_entry (ObsEncoder s1) saved_dict ''ObsEncoder'' of (m2, e2) \<Rightarrow>
      let s2 = s1\<lparr>ObsEncoder := m2\<rparr> in
      if e2 \<noteq> None then (s2, e2) else
     (case load_entry (ObsDecoder s2) saved_dict ''ObsDecoder'' of (m3, e3) \<Rightarrow>
      let s3 = s2\<lparr>ObsDecoder := m3\<rparr> in
      if e3 \<noteq> None then (s3, e3) else
     (case load_entry (RewardDecoder s3) saved_dict ''RewardDecoder'' of (m4, e4) \<Rightarrow>
      let s4 = s3\<lparr>RewardDecoder := m4\<rparr> in
      if e4 \<noteq> None then (s4, e4) else
     (case load_entry (ActionModel s4) saved_dict ''ActionModel'' of (m5, e5) \<Rightarrow>
      let s5 = s4\<lparr>ActionModel := m5\<rparr> in
      if e5 \<noteq> None then (s5, e5) else
     (case load_entry (ValueModel s5) saved_dict ''ValueModel'' of (m6, e6) \<Rightarrow>
      let s6 = s5\<lparr>ValueModel := m6\<rparr> in
      if e6 \<noteq> None then (s6, e6) else
     (case DiscountModel s6 of
        None \<Rightarrow> (s6, Some (AttributeError ''DiscountModel''))
      | Some dm \<Rightarrow>
     (case load_entry dm saved_dict ''DiscountModel'' of (m7, e7) \<Rightarrow>
        (s6\<lparr>DiscountModel := Some m7\<rparr>, e7)))))))))"

text \<open>
  The keys in the order in which \<^verbatim>\<open>load_save_dict\<close> reads them, and the sub-model each key
  stands for: the vocabulary to speak about one step of the loading.
\<close>

definition load_order :: "string list" where
  "load_order =
     [''RSSM'', ''ObsEncoder'', ''ObsDecoder'', ''RewardDecoder'', ''ActionModel'',
      ''ValueModel'', ''DiscountModel'']"

definition submodel_named :: "trainer \<Rightarrow> string \<Rightarrow> nn_module option" where
  "submodel_named self k =
     (if k = ''RSSM'' then Some (RSSM self)
      else if k = ''ObsEncoder'' then Some (ObsEncoder self)
      else if k = ''ObsDecoder'' then Some (ObsDecoder self)
      else if k = ''RewardDecoder'' then Some (RewardDecoder self)
      else if k = ''ActionModel'' then Some (ActionModel self)
      else if k = ''ValueModel'' then Some (ValueModel self)
      else if k = ''DiscountModel'' then DiscountModel self
      else None)"

section \<open>Vocabulary of the statements\<close>

text \<open>A tensor of \<open>T\<close> time steps with \<open>B\<close> batch entries at each.\<close>

definition has_shape :: "nat \<Rightarrow> nat \<Rightarrow> 'a list list \<Rightarrow> bool" where
  "has_shape T B x \<longleftrightarrow> length x = T \<and> list_all (\<lambda>r. length r = B) x"

text \<open>
  The value loss in the words of the specification, to compare the code with: the mean over
  all entries of the squared error between target and prediction, each squared-error term
  scaled by its discount weight and by 0.5.
\<close>

definition claimed_value_loss :: "tensor \<Rightarrow> tensor \<Rightarrow> tensor \<Rightarrow> real" where
  "claimed_value_loss weights targets preds =
     sum_list (concat (map2 (map2 (*)) weights
                 (map2 (map2 (\<lambda>y p. 0.5 * (y - p) ^ 2)) targets preds)))
       / real (numel targets)"

section \<open>A small trainer to run the definitions on\<close>

text \<open>
  A configuration with every key, sub-models with one or two parameters each, and simple
  stand-ins for the collaborators: sequences of length 3, a batch of 2, horizon 2.
\<close>

definition example_config :: training_config where
  "example_config = map_of
     [(''use_fixed_target'', PyBool True), (''use_discount_model'', PyBool True),
      (''use_kl_balancing'', PyBool True), (''kl_balancing_scale'', PyFloat (1/2)),
      (''seq_len'', PyInt 3), (''batch_size'', PyInt 2), (''collect_intervals'', PyInt 1),
      (''seed_episodes'', PyInt 1), (''model_learning_rate'', PyFloat (1/1000)),
      (''actor_learning_rate'', PyFloat (1/1000)), (''value_learning_rate'', PyFloat (1/1000)),
      (''discount'', PyFloat (99/100)), (''lambda_'', PyFloat (1/2)), (''horizon'', PyInt 2),
      (''kl_scale'', PyFloat 2), (''pcont_scale'', PyFloat 3),
      (''actor_entropy_scale'', PyFloat (1/2)), (''grad_clip_norm'', PyFloat 100)]"

definition example_fresh :: fresh_models where
  "example_fresh =
     \<lparr>new_RSSM = [(''w'', [1])], new_ActionModel = [(''w'', [2])],
      new_RewardDecoder = [(''w'', [3])], new_ValueModel = [(''w'', [4]), (''b'', [1, 2])],
      new_TargetValueModel = [(''w'', [0]), (''b'', [0, 0])], new_DiscountModel = [(''w'', [5])],
      new_ObsEncoder = [(''w'', [6])], new_ObsDecoder = [(''w'', [7])]\<rparr>"

definition example_trainer :: trainer where
  "example_trainer =
     (init_attributes example_fresh 2 False (Some [(''w'', [4]), (''b'', [1, 2])])
        (PyBool True) (PyBool True) (PyFloat (1/2))
        [PyInt 3, PyInt 2, PyInt 1, PyInt 1, PyFloat (1/1000), PyFloat (1/1000),
         PyFloat (1/1000), PyFloat (99/100), PyFloat (1/2), PyInt 2, PyFloat 2, PyFloat 3,
         PyFloat (1/2), PyFloat 100])
     \<lparr>world_list := [M_ObsEncoder, M_RSSM, M_RewardDecoder, M_ObsDecoder, M_DiscountModel],
      actor_list := [M_ActionModel],
      value_list := [M_ValueModel, M_TargetValueModel],
      actorcritic_list := [M_ActionModel, M_ValueModel],
      model_optimizer := Some \<lparr>opt_models = [M_ObsEncoder, M_RSSM, M_RewardDecoder,
        M_ObsDecoder, M_DiscountModel], opt_lr = PyFloat (1/1000)\<rparr>,
      actor_optimizer := Some \<lparr>opt_models = [M_ActionModel], opt_lr = PyFloat (1/1000)\<rparr>,
      value_optimizer := Some \<lparr>opt_models = [M_ValueModel, M_TargetValueModel],
        opt_lr = PyFloat (1/1000)\<rparr>\<rparr>"

text \<open>
  Modelled from the spec: \<^verbatim>\<open>compute_return\<close> of \<^verbatim>\<open>dreamerv2.utils.algorithm\<close> is missing from
  the sources. The spec gives the recursion
  \<open>R_h = reward_h + discount_h * ((1 - lambda) * value_{h+1} + lambda * R_{h+1})\<close>, the value
  and the return after the last step being the bootstrap.
\<close>

fun lambda_return_rows :: "real \<Rightarrow> tensor \<Rightarrow> tensor \<Rightarrow> tensor \<Rightarrow> real list \<Rightarrow> tensor" where
  "lambda_return_rows l [] vs ds boot = []"
| "lambda_return_rows l (r # rs) vs ds boot =
     (let rest = lambda_return_rows l rs (tl vs) (tl ds) boot;
          next_v = (case tl vs of [] \<Rightarrow> boot | v # _ \<Rightarrow> v);
          next_R = (case rest of [] \<Rightarrow> boot | x # _ \<Rightarrow> x)
      in map (\<lambda>b. r ! b + hd ds ! b * ((1 - l) * next_v ! b + l * next_R ! b)) [0..<length r]
         # rest)"

definition first_weight :: "nn_module \<Rightarrow> real" where
  "first_weight m = (case m of (k, w # ws) # ps \<Rightarrow> w | _ \<Rightarrow> 0)"

definition example_externals :: "(modelstates, tensor) externals" where
  "example_externals =
     \<lparr>ObsEncoder_call = (\<lambda>m x. x),
      ObsDecoder_call = (\<lambda>m s. \<lparr>e_mean = map (\<lambda>a. a + 1) s,
         e_log_prob = (\<lambda>x. - sum_list (map2 (\<lambda>a b. (a - (b + 1)) ^ 2) x s) / 2)\<rparr>),
      RewardDecoder_call = (\<lambda>m s. \<lparr>e_mean = sum_list s,
         e_log_prob = (\<lambda>x. - ((x - sum_list s) ^ 2) / 2)\<rparr>),
      DiscountModel_call = (\<lambda>m s. \<lparr>e_mean = 1 / (1 + (sum_list s) ^ 2),
         e_log_prob = (\<lambda>x. - ((x - 1 / (1 + (sum_list s) ^ 2)) ^ 2))\<rparr>),
      ValueModel_call = (\<lambda>m s. first_weight m * sum_list s),
      init_rssm_state = (\<lambda>m b. Inr []),
      rollout_observation = (\<lambda>m l embed actions prev.
         Inr (map (map (map (\<lambda>x. x / 2))) embed, embed)),
      rollout_imagination = (\<lambda>m h actor s.
         case h of
           PyInt i \<Rightarrow> Inr (map (\<lambda>k. map (map (\<lambda>x. x / 2 ^ k)) (concat s)) [0..<nat i + 1],
                          map (\<lambda>k. map (\<lambda>x. 1) (concat s)) [0..<nat i + 1])
         | _ \<Rightarrow> Inl TypeError),
      get_modelstate = (\<lambda>s. s),
      get_dist = (\<lambda>s. map (map sum_list) s),
      rssm_seq_to_batch = (\<lambda>s b l.
         case l of PyInt i \<Rightarrow> Inr [concat (take (nat i) s)] | _ \<Rightarrow> Inl TypeError),
      kl_divergence = (\<lambda>p q. tensor_op (\<lambda>a b. (a - b) ^ 2) p q),
      compute_return = (\<lambda>r v d boot l.
         bindE (num l) (\<lambda>lv. Inr (lambda_return_rows lv r v d boot)))\<rparr>"

definition example_obs :: modelstates where
  "example_obs = [[[1], [2]], [[2], [0]], [[4], [2]]]"

definition example_rewards :: tensor where
  "example_rewards = [[0, 0], [1, 0], [0, 2]]"

definition example_nonterms :: tensor where
  "example_nonterms = [[1, 1], [1, 1], [1, 0]]"

definition example_actions :: modelstates where
  "example_actions = [[[0], [0]], [[1], [0]], [[0], [1]]]"

text \<open>
  What the imagination roll-out of the example yields from \<open>example_obs\<close> as posterior: the
  first two steps flattened into a batch of 4, then three imagined steps.
\<close>

definition example_imag :: modelstates where
  "example_imag =
     [[[1], [2], [2], [0]], [[1 / 2], [1], [1], [0]], [[1 / 4], [1 / 2], [1 / 2], [0]]]"

definition example_entropy :: tensor where
  "example_entropy = [[1, 1, 1, 1], [1, 1, 1, 1], [1, 1, 1, 1]]"

text \<open>The discount factors decoded at the imagined states, and the lambda-returns.\<close>

definition example_discounts :: tensor where
  "example_discounts =
     [[1 / 2, 1 / 5, 1 / 5, 1], [4 / 5, 1 / 2, 1 / 2, 1], [16 / 17, 4 / 5, 4 / 5, 1]]"

definition example_returns :: tensor where
  "example_returns = [[73 / 40, 13 / 5, 13 / 5, 0], [13 / 10, 2, 2, 0]]"



text \<open>A saved dictionary with all seven entries, each fitting its sub-model.\<close>

definition example_saved :: save_dict where
  "example_saved = map_of
     [(''RSSM'', [(''w'', [10])]), (''ObsEncoder'', [(''w'', [60])]),
      (''ObsDecoder'', [(''w'', [70])]), (''RewardDecoder'', [(''w'', [30])]),
      (''ActionModel'', [(''w'', [20])]), (''ValueModel'', [(''w'', [40]), (''b'', [11, 12])]),
      (''DiscountModel'', [(''w'', [50])])]"

section \<open>Basic facts\<close>

lemma bindE_Inr_iff: "bindE r f = Inr y \<longleftrightarrow> (\<exists>x. r = Inr x \<and> f x = Inr y)"
  by (cases r) (simp_all add: bindE_def)

lemma bindE_simps: "bindE (Inl e) f = Inl e" "bindE (Inr x) f = f x"
  by (simp_all add: bindE_def)

lemma map_of_load_param:
  assumes "list_all (param_loadable sd) m"
  shows "map_of (map (load_param sd) m) k = (if k \<in> fst ` set m then map_of sd k else None)"
  using assms
proof (induction m)
  case Nil
  then show ?case by simp
next
  case (Cons kv m)
  obtain k' v' where kv: "kv = (k', v')" by (cases kv)
  from Cons.prems have ok: "param_loadable sd kv" and rest: "list_all (param_loadable sd) m"
    by simp_all
  from ok kv obtain v where v: "map_of sd k' = Some v" "length v = length v'"
    by (auto simp: param_loadable_def split: option.splits)
  then have "load_param sd kv = (k', v)"
    by (simp add: load_param_def kv)
  with Cons.IH [OF rest] v kv show ?case
    by auto
qed

lemma load_state_dict_ok:
  assumes "snd (load_state_dict m sd) = None"
  shows "map_of (fst (load_state_dict m sd)) = map_of sd"
proof
  fix k
  from assms have ok: "list_all (param_loadable sd) m"
    and keys: "list_all (\<lambda>k. k \<in> set (map fst m)) (map fst sd)"
    by (auto simp: load_state_dict_def split: if_splits)
  have "k \<notin> fst ` set m \<Longrightarrow> map_of sd k = None"
  proof -
    assume nk: "k \<notin> fst ` set m"
    from keys have "fst ` set sd \<subseteq> fst ` set m"
      by (auto simp: list_all_iff)
    with nk have "k \<notin> fst ` set sd" by blast
    then show "map_of sd k = None" by (simp add: map_of_eq_None_iff)
  qed
  with map_of_load_param [OF ok, of k]
  show "map_of (fst (load_state_dict m sd)) k = map_of sd k"
    by (auto simp: load_state_dict_def)
qed

lemma optim_initialize_Inr:
  assumes "optim_initialize s = Inr t"
  shows "DiscountModel t = DiscountModel s" "DiscountModel s \<noteq> None"
    "TargetValueModel t = TargetValueModel s" "ValueModel t = ValueModel s"
    "use_fixed_target t = use_fixed_target s"
  using assms
  by (auto simp: optim_initialize_def Let_def split: option.splits if_splits)

lemma optim_initialize_no_discount:
  "DiscountModel s = None \<Longrightarrow> optim_initialize s = Inl (AttributeError ''DiscountModel'')"
  by (simp add: optim_initialize_def)

lemma Trainer_init_pixels:
  "Trainer_init fresh n cfg True \<noteq> Inr t"
  by (simp add: Trainer_init_def bindE_Inr_iff)

lemma Trainer_init_Inr:
  assumes "Trainer_init fresh n cfg px = Inr t"
  shows "\<not> px"
    and "\<exists>v. cfg ''use_discount_model'' = Some v \<and> truthy v"
    and "DiscountModel t = Some (new_DiscountModel fresh)"
    and "ValueModel t = new_ValueModel fresh"
    and "\<exists>u. cfg ''use_fixed_target'' = Some u \<and> use_fixed_target t = u \<and>
          init_target fresh u = Inr (TargetValueModel t)"
proof -
  from assms obtain uft tvm udm uft' kbs vs where
    a: "cfg_get cfg ''use_fixed_target'' = Inr uft" "init_target fresh uft = Inr tvm"
       "cfg_get cfg ''use_discount_model'' = Inr udm" "\<not> px"
       "cfg_get cfg ''use_fixed_target'' = Inr uft'"
       "optim_initialize (init_attributes fresh n px tvm udm uft' kbs vs) = Inr t"
    by (auto simp: Trainer_init_def bindE_Inr_iff split: if_splits)
  note o = optim_initialize_Inr [OF a(6)]
  show "\<not> px" by (rule a(4))
  from a(3) o(1,2) show "\<exists>v. cfg ''use_discount_model'' = Some v \<and> truthy v"
    by (auto simp: cfg_get_def init_attributes_def split: option.splits if_splits)
  from o(1,2) show "DiscountModel t = Some (new_DiscountModel fresh)"
    by (auto simp: init_attributes_def split: if_splits)
  from o(4) show "ValueModel t = new_ValueModel fresh"
    by (simp add: init_attributes_def)
  from a(1,2,5) o(3,5)
  show "\<exists>u. cfg ''use_fixed_target'' = Some u \<and> use_fixed_target t = u \<and>
          init_target fresh u = Inr (TargetValueModel t)"
    by (auto simp: cfg_get_def init_attributes_def split: option.splits)
qed

lemma cfg_get_Some: "cfg k = Some v \<Longrightarrow> cfg_get cfg k = Inr v"
  by (simp add: cfg_get_def)

lemma cfg_get_all_present:
  "\<forall>k\<in>set ks. cfg k \<noteq> None \<Longrightarrow> cfg_get_all cfg ks = Inr (map (\<lambda>k. the (cfg k)) ks)"
  by (induction ks) (auto simp: cfg_get_def bindE_simps)

lemma example_trainer_init:
  "Trainer_init example_fresh 2 example_config False = Inr example_trainer"
  by (simp add: Trainer_init_def cfg_get_def example_config_def bindE_simps init_target_def
      example_fresh_def load_state_dict_def state_dict_def load_param_def param_loadable_def
      scalar_keys_def optim_initialize_def example_trainer_def init_attributes_def Let_def)

section \<open>Entry points that are not supported\<close>

text \<open>
  Claim C9. Every entry point that is unimplemented by design raises instead of silently doing
  nothing. Constructing a \<^verbatim>\<open>Trainer\<close> with \<^verbatim>\<open>pixels=True\<close> never yields an object, and
  whenever the constructor reaches the \<^verbatim>\<open>pixels\<close> guard (the two flags read before it are
  in the configuration and the first copy into the target value model went through) the
  exception is \<^verbatim>\<open>NotImplementedError\<close>. \<^verbatim>\<open>save_model\<close> raises \<^verbatim>\<open>NotImplementedError\<close> for
  every save name, and so do \<^verbatim>\<open>_actor_loss\<close> and \<^verbatim>\<open>_value_loss\<close> on every call.
\<close>

theorem unsupported_entry_points_raise:
  "(\<forall>t. Trainer_init fresh n cfg True \<noteq> Inr t)
   \<and> (cfg ''use_fixed_target'' = Some u \<and> cfg ''use_discount_model'' = Some v
        \<and> init_target fresh u = Inr tvm
      \<longrightarrow> Trainer_init fresh n cfg True = Inl NotImplementedError)
   \<and> save_model self save_name = Inl NotImplementedError
   \<and> private_actor_loss self = Inl NotImplementedError
   \<and> private_value_loss self = Inl NotImplementedError"
proof -
  have never: "\<forall>t. Trainer_init fresh n cfg True \<noteq> Inr t"
    by (simp add: Trainer_init_pixels)
  have guard: "cfg ''use_fixed_target'' = Some u \<and> cfg ''use_discount_model'' = Some v
        \<and> init_target fresh u = Inr tvm
      \<longrightarrow> Trainer_init fresh n cfg True = Inl NotImplementedError"
    by (simp add: Trainer_init_def cfg_get_Some bindE_simps)
  from never guard show ?thesis
    by (simp add: save_model_def private_actor_loss_def private_value_loss_def)
qed

text \<open>The example configuration with \<^verbatim>\<open>pixels=True\<close>.\<close>

theorem unsupported_entry_points_raise_witness:
  "Trainer_init example_fresh 2 example_config True = Inl NotImplementedError
   \<and> save_model example_trainer ''model'' = Inl NotImplementedError
   \<and> private_actor_loss example_trainer = Inl NotImplementedError
   \<and> private_value_loss example_trainer = Inl NotImplementedError"
proof -
  have a: "example_config ''use_fixed_target'' = Some (PyBool True)"
    by (simp add: example_config_def)
  have b: "example_config ''use_discount_model'' = Some (PyBool True)"
    by (simp add: example_config_def)
  have c: "init_target example_fresh (PyBool True) = Inr (Some [(''w'', [4]), (''b'', [1, 2])])"
    by (simp add: init_target_def example_fresh_def load_state_dict_def state_dict_def
        load_param_def param_loadable_def)
  from a b c unsupported_entry_points_raise
    [of example_fresh 2 example_config "PyBool True" "PyBool True"
        "Some [(''w'', [4]), (''b'', [1, 2])]" example_trainer "''model''"]
  show ?thesis by simp
qed

section \<open>The discount model cannot be switched off\<close>

text \<open>
  Claim C2. When \<^verbatim>\<open>training_config['use_discount_model']\<close> is false, constructing a
  \<^verbatim>\<open>Trainer\<close> fails, whatever the other arguments are. When the rest of the construction
  goes through (\<^verbatim>\<open>pixels\<close> is false, the other keys are in the configuration, the first copy
  into the target value model succeeds), the failure is the \<^verbatim>\<open>AttributeError\<close> that
  \<^verbatim>\<open>optim_initialize\<close> raises on \<^verbatim>\<open>self.DiscountModel\<close>. Every trainer that finishes
  construction has a discount model.
\<close>

theorem discount_flag_cannot_disable:
  assumes "cfg ''use_discount_model'' = Some v" and "\<not> truthy v"
  shows "(\<forall>t. Trainer_init fresh n cfg px \<noteq> Inr t)
    \<and> (\<not> px \<and> cfg ''use_fixed_target'' = Some u \<and> init_target fresh u = Inr tvm
         \<and> cfg ''use_kl_balancing'' = Some b \<and> (truthy b \<longrightarrow> cfg ''kl_balancing_scale'' \<noteq> None)
         \<and> (\<forall>k\<in>set scalar_keys. cfg k \<noteq> None)
       \<longrightarrow> Trainer_init fresh n cfg px = Inl (AttributeError ''DiscountModel''))
    \<and> (Trainer_init fresh' n' cfg' px' = Inr t' \<longrightarrow> DiscountModel t' \<noteq> None)"
proof (intro conjI)
  show "\<forall>t. Trainer_init fresh n cfg px \<noteq> Inr t"
  proof (intro allI notI)
    fix t assume "Trainer_init fresh n cfg px = Inr t"
    from Trainer_init_Inr(2) [OF this] assms show False by auto
  qed
  show "\<not> px \<and> cfg ''use_fixed_target'' = Some u \<and> init_target fresh u = Inr tvm
         \<and> cfg ''use_kl_balancing'' = Some b \<and> (truthy b \<longrightarrow> cfg ''kl_balancing_scale'' \<noteq> None)
         \<and> (\<forall>k\<in>set scalar_keys. cfg k \<noteq> None)
       \<longrightarrow> Trainer_init fresh n cfg px = Inl (AttributeError ''DiscountModel'')"
  proof (intro impI, elim conjE)
    assume h: "\<not> px" "cfg ''use_fixed_target'' = Some u" "init_target fresh u = Inr tvm"
      "cfg ''use_kl_balancing'' = Some b" "truthy b \<longrightarrow> cfg ''kl_balancing_scale'' \<noteq> None"
      "\<forall>k\<in>set scalar_keys. cfg k \<noteq> None"
    have "\<exists>x. (if truthy b then cfg_get cfg ''kl_balancing_scale'' else Inr PyNone) = Inr x"
      using h(5) by (auto simp: cfg_get_def)
    then obtain x where
      x: "(if truthy b then cfg_get cfg ''kl_balancing_scale'' else Inr PyNone) = Inr x" ..
    have "DiscountModel (init_attributes fresh n px tvm v u x (map (\<lambda>k. the (cfg k)) scalar_keys))
            = None"
      using assms(2) by (simp add: init_attributes_def)
    then show "Trainer_init fresh n cfg px = Inl (AttributeError ''DiscountModel'')"
      using h(1-4) assms(1) x
      by (simp add: Trainer_init_def cfg_get_Some bindE_simps cfg_get_all_present [OF h(6)]
          optim_initialize_no_discount)
  qed
  show "Trainer_init fresh' n' cfg' px' = Inr t' \<longrightarrow> DiscountModel t' \<noteq> None"
    using Trainer_init_Inr(3) by auto
qed

text \<open>The example configuration with the flag switched off, and as it is.\<close>

theorem discount_flag_cannot_disable_witness:
  "Trainer_init example_fresh 2 (example_config(''use_discount_model'' \<mapsto> PyBool False)) False
     = Inl (AttributeError ''DiscountModel'')
   \<and> Trainer_init example_fresh 2 example_config False = Inr example_trainer
   \<and> DiscountModel example_trainer \<noteq> None"
proof -
  let ?cfg = "example_config(''use_discount_model'' \<mapsto> PyBool False)"
  have a: "?cfg ''use_discount_model'' = Some (PyBool False)" by simp
  have b: "\<not> truthy (PyBool False)" by simp
  have c: "init_target example_fresh (PyBool True) = Inr (Some [(''w'', [4]), (''b'', [1, 2])])"
    by (simp add: init_target_def example_fresh_def load_state_dict_def state_dict_def
        load_param_def param_loadable_def)
  have d: "?cfg ''use_fixed_target'' = Some (PyBool True)"
    "?cfg ''use_kl_balancing'' = Some (PyBool True)" "?cfg ''kl_balancing_scale'' \<noteq> None"
    by (simp_all add: example_config_def)
  have e: "\<forall>k\<in>set scalar_keys. ?cfg k \<noteq> None"
    by (simp add: scalar_keys_def example_config_def)
  from discount_flag_cannot_disable
    [where cfg = ?cfg and v = "PyBool False" and fresh = example_fresh and n = 2
       and px = False and u = "PyBool True" and tvm = "Some [(''w'', [4]), (''b'', [1, 2])]"
       and b = "PyBool True" and fresh' = example_fresh and n' = 2 and cfg' = example_config
       and px' = False and t' = example_trainer, OF a b]
    c d e example_trainer_init
  show ?thesis by simp
qed


section \<open>The target value model is a hard copy\<close>

lemma update_target_ok:
  assumes "update_target self = (self', None)"
  shows "\<exists>tm. TargetValueModel self' = Some tm \<and> map_of tm = map_of (ValueModel self')"
    and "ValueModel self' = ValueModel self"
proof -
  from assms obtain tm0 tm where
    tm: "TargetValueModel self = Some tm0"
        "load_state_dict tm0 (state_dict (ValueModel self)) = (tm, None)"
        "self' = self\<lparr>TargetValueModel := Some tm\<rparr>"
    by (auto simp: update_target_def split: option.splits prod.splits)
  from tm(2) load_state_dict_ok [of tm0 "state_dict (ValueModel self)"]
  have "map_of tm = map_of (ValueModel self)"
    by (simp add: state_dict_def)
  with tm(3) show "\<exists>tm. TargetValueModel self' = Some tm \<and> map_of tm = map_of (ValueModel self')"
    by simp
  from tm(3) show "ValueModel self' = ValueModel self" by simp
qed

lemma init_target_ok:
  assumes "init_target fresh u = Inr tvm" and "truthy u"
  shows "\<exists>tm. tvm = Some tm \<and> map_of tm = map_of (new_ValueModel fresh)"
proof -
  from assms obtain tm where
    tm: "tvm = Some tm"
        "load_state_dict (new_TargetValueModel fresh) (state_dict (new_ValueModel fresh)) = (tm, None)"
    by (auto simp: init_target_def split: prod.splits option.splits)
  from tm(2) load_state_dict_ok [of "new_TargetValueModel fresh" "state_dict (new_ValueModel fresh)"]
  have "map_of tm = map_of (new_ValueModel fresh)"
    by (simp add: state_dict_def)
  with tm(1) show ?thesis by simp
qed

lemma fst_load_param: "fst (load_param sd kv) = fst kv"
  by (simp add: load_param_def split: option.splits)

lemma param_loadable_load_param:
  "param_loadable sd kv \<Longrightarrow> param_loadable sd (load_param sd kv)"
  by (auto simp: param_loadable_def load_param_def split: option.splits)

lemma load_state_dict_again:
  assumes "snd (load_state_dict m sd) = None"
  shows "load_state_dict (fst (load_state_dict m sd)) sd = (fst (load_state_dict m sd), None)"
proof -
  let ?m' = "map (load_param sd) m"
  from assms have ok: "list_all (param_loadable sd) m"
    and keys: "list_all (\<lambda>k. k \<in> set (map fst m)) (map fst sd)"
    by (auto simp: load_state_dict_def split: if_splits)
  have k': "map fst ?m' = map fst m"
    by (simp add: fst_load_param comp_def)
  from ok have ok': "list_all (param_loadable sd) ?m'"
    by (simp add: list_all_iff param_loadable_load_param)
  have twice: "load_param sd (load_param sd kv) = load_param sd kv" for kv
    by (simp add: load_param_def split: option.splits)
  have again: "map (load_param sd) ?m' = ?m'"
    by (simp add: twice)
  have m': "fst (load_state_dict m sd) = ?m'"
    by (simp add: load_state_dict_def)
  have "load_state_dict ?m' sd = (map (load_param sd) ?m',
      if list_all (param_loadable sd) ?m' \<and> list_all (\<lambda>k. k \<in> set (map fst ?m')) (map fst sd)
      then None else Some RuntimeError)"
    by (rule load_state_dict_def)
  also have "\<dots> = (?m', None)"
    unfolding again k' using ok' keys by simp
  finally show ?thesis
    unfolding m' .
qed

lemma init_target_update:
  assumes "init_target fresh u = Inr (Some tm)" and "truthy u"
  shows "load_state_dict tm (state_dict (new_ValueModel fresh)) = (tm, None)"
proof -
  let ?l = "load_state_dict (new_TargetValueModel fresh) (state_dict (new_ValueModel fresh))"
  from assms have l: "?l = (tm, None)"
    by (auto simp: init_target_def split: prod.splits option.splits)
  then have "snd ?l = None" by simp
  from load_state_dict_again [OF this] l show ?thesis by simp
qed

text \<open>
  Claim C8. After a call of \<^verbatim>\<open>update_target\<close> that returns, the target value model holds
  exactly the parameter tensors of the value model, name by name, and the value model is
  unchanged: a full hard copy, no interpolation. The same equality holds for every trainer
  that \<^verbatim>\<open>__init__\<close> returns with a fixed target configured, and on such a trainer the
  hard update returns without an exception.
\<close>

theorem update_target_hard_copy:
  "(update_target self = (self', None) \<longrightarrow>
      (\<exists>tm. TargetValueModel self' = Some tm \<and> map_of tm = map_of (ValueModel self'))
      \<and> ValueModel self' = ValueModel self)
   \<and> (Trainer_init fresh n cfg px = Inr t \<and> truthy (use_fixed_target t) \<longrightarrow>
      (\<exists>tm. TargetValueModel t = Some tm \<and> map_of tm = map_of (ValueModel t))
      \<and> update_target t = (t, None))"
proof (intro conjI impI)
  assume "update_target self = (self', None)"
  then show "\<exists>tm. TargetValueModel self' = Some tm \<and> map_of tm = map_of (ValueModel self')"
    and "ValueModel self' = ValueModel self"
    by (rule update_target_ok)+
next
  assume a: "Trainer_init fresh n cfg px = Inr t \<and> truthy (use_fixed_target t)"
  then have i: "Trainer_init fresh n cfg px = Inr t" and f: "truthy (use_fixed_target t)"
    by simp_all
  from Trainer_init_Inr(5) [OF i] f
  have tgt: "init_target fresh (use_fixed_target t) = Inr (TargetValueModel t)" by auto
  note vm = Trainer_init_Inr(4) [OF i]
  from init_target_ok [OF tgt f] vm
  show "\<exists>tm. TargetValueModel t = Some tm \<and> map_of tm = map_of (ValueModel t)"
    by simp
  from init_target_ok [OF tgt f] obtain tm where tm: "TargetValueModel t = Some tm"
    by auto
  from init_target_update [OF tgt [unfolded tm] f] vm
  have "load_state_dict tm (state_dict (ValueModel t)) = (tm, None)"
    by simp
  with tm have "update_target t = (t\<lparr>TargetValueModel := Some tm\<rparr>, None)"
    by (simp add: update_target_def)
  also have "t\<lparr>TargetValueModel := Some tm\<rparr> = t"
    using tm by simp
  finally show "update_target t = (t, None)" .
qed

text \<open>The example trainer after its value model has moved, and as constructed.\<close>

theorem update_target_hard_copy_witness:
  "update_target (example_trainer\<lparr>ValueModel := [(''w'', [9]), (''b'', [8, 7])]\<rparr>)
     = (example_trainer\<lparr>ValueModel := [(''w'', [9]), (''b'', [8, 7])],
                        TargetValueModel := Some [(''w'', [9]), (''b'', [8, 7])]\<rparr>, None)
   \<and> Trainer_init example_fresh 2 example_config False = Inr example_trainer
   \<and> truthy (use_fixed_target example_trainer)
   \<and> (\<exists>tm. TargetValueModel example_trainer = Some tm
          \<and> map_of tm = map_of (ValueModel example_trainer))"
proof -
  let ?s = "example_trainer\<lparr>ValueModel := [(''w'', [9]), (''b'', [8, 7])]\<rparr>"
  let ?s' = "example_trainer\<lparr>ValueModel := [(''w'', [9]), (''b'', [8, 7])],
                        TargetValueModel := Some [(''w'', [9]), (''b'', [8, 7])]\<rparr>"
  have u: "update_target ?s = (?s', None)"
    by (simp add: update_target_def example_trainer_def init_attributes_def load_state_dict_def
        state_dict_def load_param_def param_loadable_def)
  have f: "truthy (use_fixed_target example_trainer)"
    by (simp add: example_trainer_def init_attributes_def)
  from update_target_hard_copy [of ?s ?s' example_fresh 2 example_config False example_trainer]
    u f example_trainer_init
  show ?thesis by simp
qed

section \<open>KL balancing at one half\<close>

lemma private_kl_loss_balanced:
  assumes "num s = Inr c"
  shows "private_kl_loss ext (self\<lparr>kl_balancing_scale := s\<rparr>) prior posterior
     = private_kl_loss ext (self\<lparr>kl_balancing_scale := PyNone\<rparr>) prior posterior"
proof -
  from assms have s: "s \<noteq> PyNone" by auto
  have c: "c * m + (1 - c) * m = m" for m :: real
    by (simp add: algebra_simps)
  show ?thesis
  proof (cases "kl_divergence ext (get_dist ext posterior) (get_dist ext prior)")
    case (Inl e)
    with s assms show ?thesis
      by (simp add: private_kl_loss_def rssm_detach_def bindE_simps Let_def)
  next
    case (Inr kl)
    with s assms c show ?thesis
      by (cases "torch_mean kl")
         (simp_all add: private_kl_loss_def rssm_detach_def bindE_simps Let_def)
  qed
qed

text \<open>
  Claim C3. With \<^verbatim>\<open>kl_balancing_scale = 0.5\<close> the balanced KL loss
  \<open>0.5 * mean KL(stopgrad(posterior), prior) + 0.5 * mean KL(posterior, stopgrad(prior))\<close>
  that \<^verbatim>\<open>_kl_loss\<close> returns has the value of the plain mean KL divergence it returns when
  balancing is off (and raises whenever that one does).
\<close>

theorem kl_balance_half_is_plain_kl:
  "private_kl_loss ext (self\<lparr>kl_balancing_scale := PyFloat (1 / 2)\<rparr>) prior posterior
     = private_kl_loss ext (self\<lparr>kl_balancing_scale := PyNone\<rparr>) prior posterior"
proof -
  have half: "num (PyFloat (1 / 2)) = Inr (1 / 2)"
    by simp
  from half show ?thesis
    by (rule private_kl_loss_balanced)
qed

text \<open>One step, two batch entries: both forms give 5.\<close>

theorem kl_balance_half_is_plain_kl_witness:
  "private_kl_loss example_externals (example_trainer\<lparr>kl_balancing_scale := PyFloat (1 / 2)\<rparr>)
      [[[1], [0]]] [[[2], [3]]] = Inr ([[1, 0]], [[2, 3]], 5)
   \<and> private_kl_loss example_externals (example_trainer\<lparr>kl_balancing_scale := PyNone\<rparr>)
      [[[1], [0]]] [[[2], [3]]] = Inr ([[1, 0]], [[2, 3]], 5)"
proof -
  have "private_kl_loss example_externals (example_trainer\<lparr>kl_balancing_scale := PyNone\<rparr>)
      [[[1], [0]]] [[[2], [3]]] = Inr ([[1, 0]], [[2, 3]], 5)"
    by (simp add: private_kl_loss_def example_externals_def tensor_op_def broadcast_def
        bindE_simps torch_mean_def numel_def Let_def)
  with kl_balance_half_is_plain_kl [of example_externals example_trainer "[[[1], [0]]]" "[[[2], [3]]]"]
  show ?thesis by simp
qed

section \<open>Loading a saved dictionary\<close>

lemma load_entry_missing:
  "saved_dict k = None \<Longrightarrow> load_entry m saved_dict k = (m, Some (KeyError k))"
  by (simp add: load_entry_def)

lemma load_entry_loaded:
  "saved_dict k = Some sd \<Longrightarrow> snd (load_state_dict m sd) = None \<Longrightarrow>
     load_entry m saved_dict k = (fst (load_state_dict m sd), None)"
  by (simp add: load_entry_def prod_eq_iff)

lemma load_order_cases:
  assumes "k \<in> set load_order"
  shows "k = ''RSSM'' \<or> k = ''ObsEncoder'' \<or> k = ''ObsDecoder'' \<or> k = ''RewardDecoder''
     \<or> k = ''ActionModel'' \<or> k = ''ValueModel'' \<or> k = ''DiscountModel''"
  using assms unfolding load_order_def by simp

text \<open>
  The loading up to a missing key, one lemma for each position: the entries before it are
  loaded, the call ends with \<^verbatim>\<open>KeyError\<close>.
\<close>

lemma missing_RSSM:
  assumes "saved_dict ''RSSM'' = None"
  shows "load_save_dict self saved_dict =
     (self,
      Some (KeyError ''RSSM''))"
  using assms by (simp add: load_save_dict_def load_entry_missing load_entry_loaded Let_def)

lemma missing_ObsEncoder:
  assumes "saved_dict ''RSSM'' = Some sd1" "snd (load_state_dict (RSSM self) sd1) = None"
    and "saved_dict ''ObsEncoder'' = None"
  shows "load_save_dict self saved_dict =
     (self\<lparr>RSSM := fst (load_state_dict (RSSM self) sd1)\<rparr>,
      Some (KeyError ''ObsEncoder''))"
  using assms by (simp add: load_save_dict_def load_entry_missing load_entry_loaded Let_def)

lemma missing_ObsDecoder:
  assumes "saved_dict ''RSSM'' = Some sd1" "snd (load_state_dict (RSSM self) sd1) = None"
    and "saved_dict ''ObsEncoder'' = Some sd2" "snd (load_state_dict (ObsEncoder self) sd2) = None"
    and "saved_dict ''ObsDecoder'' = None"
  shows "load_save_dict self saved_dict =
     (self\<lparr>RSSM := fst (load_state_dict (RSSM self) sd1),
           ObsEncoder := fst (load_state_dict (ObsEncoder self) sd2)\<rparr>,
      Some (KeyError ''ObsDecoder''))"
  using assms by (simp add: load_save_dict_def load_entry_missing load_entry_loaded Let_def)

lemma missing_RewardDecoder:
  assumes "saved_dict ''RSSM'' = Some sd1" "snd (load_state_dict (RSSM self) sd1) = None"
    and "saved_dict ''ObsEncoder'' = Some sd2" "snd (load_state_dict (ObsEncoder self) sd2) = None"
    and "saved_dict ''ObsDecoder'' = Some sd3" "snd (load_state_dict (ObsDecoder self) sd3) = None"
    and "saved_dict ''RewardDecoder'' = None"
  shows "load_save_dict self saved_dict =
     (self\<lparr>RSSM := fst (load_state_dict (RSSM self) sd1),
           ObsEncoder := fst (load_state_dict (ObsEncoder self) sd2),
           ObsDecoder := fst (load_state_dict (ObsDecoder self) sd3)\<rparr>,
      Some (KeyError ''RewardDecoder''))"
  using assms by (simp add: load_save_dict_def load_entry_missing load_entry_loaded Let_def)

lemma missing_ActionModel:
  assumes "saved_dict ''RSSM'' = Some sd1" "snd (load_state_dict (RSSM self) sd1) = None"
    and "saved_dict ''ObsEncoder'' = Some sd2" "snd (load_state_dict (ObsEncoder self) sd2) = None"
    and "saved_dict ''ObsDecoder'' = Some sd3" "snd (load_state_dict (ObsDecoder self) sd3) = None"
    and "saved_dict ''RewardDecoder'' = Some sd4" "snd (load_state_dict (RewardDecoder self) sd4) = None"
    and "saved_dict ''ActionModel'' = None"
  shows "load_save_dict self saved_dict =
     (self\<lparr>RSSM := fst (load_state_dict (RSSM self) sd1),
           ObsEncoder := fst (load_state_dict (ObsEncoder self) sd2),
           ObsDecoder := fst (load_state_dict (ObsDecoder self) sd3),
           RewardDecoder := fst (load_state_dict (RewardDecoder self) sd4)\<rparr>,
      Some (KeyError ''ActionModel''))"
  using assms by (simp add: load_save_dict_def load_entry_missing load_entry_loaded Let_def)

lemma missing_ValueModel:
  assumes "saved_dict ''RSSM'' = Some sd1" "snd (load_state_dict (RSSM self) sd1) = None"
    and "saved_dict ''ObsEncoder'' = Some sd2" "snd (load_state_dict (ObsEncoder self) sd2) = None"
    and "saved_dict ''ObsDecoder'' = Some sd3" "snd (load_state_dict (ObsDecoder self) sd3) = None"
    and "saved_dict ''RewardDecoder'' = Some sd4" "snd (load_state_dict (RewardDecoder self) sd4) = None"
    and "saved_dict ''ActionModel'' = Some sd5" "snd (load_state_dict (ActionModel self) sd5) = None"
    and "saved_dict ''ValueModel'' = None"
  shows "load_save_dict self saved_dict =
     (self\<lparr>RSSM := fst (load_state_dict (RSSM self) sd1),
           ObsEncoder := fst (load_state_dict (ObsEncoder self) sd2),
           ObsDecoder := fst (load_state_dict (ObsDecoder self) sd3),
           RewardDecoder := fst (load_state_dict (RewardDecoder self) sd4),
           ActionModel := fst (load_state_dict (ActionModel self) sd5)\<rparr>,
      Some (KeyError ''ValueModel''))"
  using assms by (simp add: load_save_dict_def load_entry_missing load_entry_loaded Let_def)

lemma missing_DiscountModel:
  assumes "saved_dict ''RSSM'' = Some sd1" "snd (load_state_dict (RSSM self) sd1) = None"
    and "saved_dict ''ObsEncoder'' = Some sd2" "snd (load_state_dict (ObsEncoder self) sd2) = None"
    and "saved_dict ''ObsDecoder'' = Some sd3" "snd (load_state_dict (ObsDecoder self) sd3) = None"
    and "saved_dict ''RewardDecoder'' = Some sd4" "snd (load_state_dict (RewardDecoder self) sd4) = None"
    and "saved_dict ''ActionModel'' = Some sd5" "snd (load_state_dict (ActionModel self) sd5) = None"
    and "saved_dict ''ValueModel'' = Some sd6" "snd (load_state_dict (ValueModel self) sd6) = None"
    and "DiscountModel self = Some dm"
    and "saved_dict ''DiscountModel'' = None"
  shows "load_save_dict self saved_dict =
     (self\<lparr>RSSM := fst (load_state_dict (RSSM self) sd1),
           ObsEncoder := fst (load_state_dict (ObsEncoder self) sd2),
           ObsDecoder := fst (load_state_dict (ObsDecoder self) sd3),
           RewardDecoder := fst (load_state_dict (RewardDecoder self) sd4),
           ActionModel := fst (load_state_dict (ActionModel self) sd5),
           ValueModel := fst (load_state_dict (ValueModel self) sd6)\<rparr>,
      Some (KeyError ''DiscountModel''))"
  using assms by (simp add: load_save_dict_def load_entry_missing load_entry_loaded Let_def)

text \<open>The loading up to the first missing key, for any position of the key.\<close>

lemma load_save_dict_first_missing:
  assumes "k \<in> set load_order"
    and "saved_dict k = None"
    and "\<forall>k'\<in>set (takeWhile (\<lambda>x. x \<noteq> k) load_order).
           \<exists>m sd. submodel_named self k' = Some m \<and> saved_dict k' = Some sd
                  \<and> snd (load_state_dict m sd) = None"
    and "DiscountModel self \<noteq> None"
  shows "snd (load_save_dict self saved_dict) = Some (KeyError k)
    \<and> (\<forall>k'\<in>set (takeWhile (\<lambda>x. x \<noteq> k) load_order).
          \<exists>m sd. submodel_named (fst (load_save_dict self saved_dict)) k' = Some m
                 \<and> saved_dict k' = Some sd \<and> map_of m = map_of sd)
    \<and> (\<forall>k'\<in>set (dropWhile (\<lambda>x. x \<noteq> k) load_order).
          submodel_named (fst (load_save_dict self saved_dict)) k' = submodel_named self k')"
proof -
  from assms(4) obtain dm where dm: "DiscountModel self = Some dm" by auto
  note ok = load_state_dict_ok
  from load_order_cases [OF assms(1)] show ?thesis
  proof (elim disjE)
    assume k: "k = ''RSSM''"
    from assms(2) have r: "load_save_dict self saved_dict = (self, Some (KeyError ''RSSM''))"
      unfolding k by (rule missing_RSSM)
    show ?thesis unfolding r k by (simp add: load_order_def)
  next
    assume k: "k = ''ObsEncoder''"
    from assms(3) obtain sd1 where
      h: "saved_dict ''RSSM'' = Some sd1" "snd (load_state_dict (RSSM self) sd1) = None"
      unfolding k by (auto simp: load_order_def submodel_named_def)
    from h assms(2) have r: "load_save_dict self saved_dict =
       (self\<lparr>RSSM := fst (load_state_dict (RSSM self) sd1)\<rparr>,
        Some (KeyError ''ObsEncoder''))"
      unfolding k by (rule missing_ObsEncoder)
    show ?thesis unfolding r k using h
      by (simp add: load_order_def submodel_named_def ok)
  next
    assume k: "k = ''ObsDecoder''"
    from assms(3) obtain sd1 sd2 where
      h: "saved_dict ''RSSM'' = Some sd1" "snd (load_state_dict (RSSM self) sd1) = None"
         "saved_dict ''ObsEncoder'' = Some sd2" "snd (load_state_dict (ObsEncoder self) sd2) = None"
      unfolding k by (auto simp: load_order_def submodel_named_def)
    from h assms(2) have r: "load_save_dict self saved_dict =
       (self\<lparr>RSSM := fst (load_state_dict (RSSM self) sd1),
           ObsEncoder := fst (load_state_dict (ObsEncoder self) sd2)\<rparr>,
        Some (KeyError ''ObsDecoder''))"
      unfolding k by (rule missing_ObsDecoder)
    show ?thesis unfolding r k using h
      by (simp add: load_order_def submodel_named_def ok)
  next
    assume k: "k = ''RewardDecoder''"
    from assms(3) obtain sd1 sd2 sd3 where
      h: "saved_dict ''RSSM'' = Some sd1" "snd (load_state_dict (RSSM self) sd1) = None"
         "saved_dict ''ObsEncoder'' = Some sd2" "snd (load_state_dict (ObsEncoder self) sd2) = None"
         "saved_dict ''ObsDecoder'' = Some sd3" "snd (load_state_dict (ObsDecoder self) sd3) = None"
      unfolding k by (auto simp: load_order_def submodel_named_def)
    from h assms(2) have r: "load_save_dict self saved_dict =
       (self\<lparr>RSSM := fst (load_state_dict (RSSM self) sd1),
           ObsEncoder := fst (load_state_dict (ObsEncoder self) sd2),
           ObsDecoder := fst (load_state_dict (ObsDecoder self) sd3)\<rparr>,
        Some (KeyError ''RewardDecoder''))"
      unfolding k by (rule missing_RewardDecoder)
    show ?thesis unfolding r k using h
      by (simp add: load_order_def submodel_named_def ok)
  next
    assume k: "k = ''ActionModel''"
    from assms(3) obtain sd1 sd2 sd3 sd4 where
      h: "saved_dict ''RSSM'' = Some sd1" "snd (load_state_dict (RSSM self) sd1) = None"
         "saved_dict ''ObsEncoder'' = Some sd2" "snd (load_state_dict (ObsEncoder self) sd2) = None"
         "saved_dict ''ObsDecoder'' = Some sd3" "snd (load_state_dict (ObsDecoder self) sd3) = None"
         "saved_dict ''RewardDecoder'' = Some sd4" "snd (load_state_dict (RewardDecoder self) sd4) = None"
      unfolding k by (auto simp: load_order_def submodel_named_def)
    from h assms(2) have r: "load_save_dict self saved_dict =
       (self\<lparr>RSSM := fst (load_state_dict (RSSM self) sd1),
           ObsEncoder := fst (load_state_dict (ObsEncoder self) sd2),
           ObsDecoder := fst (load_state_dict (ObsDecoder self) sd3),
           RewardDecoder := fst (load_state_dict (RewardDecoder self) sd4)\<rparr>,
        Some (KeyError ''ActionModel''))"
      unfolding k by (rule missing_ActionModel)
    show ?thesis unfolding r k using h
      by (simp add: load_order_def submodel_named_def ok)
  next
    assume k: "k = ''ValueModel''"
    from assms(3) obtain sd1 sd2 sd3 sd4 sd5 where
      h: "saved_dict ''RSSM'' = Some sd1" "snd (load_state_dict (RSSM self) sd1) = None"
         "saved_dict ''ObsEncoder'' = Some sd2" "snd (load_state_dict (ObsEncoder self) sd2) = None"
         "saved_dict ''ObsDecoder'' = Some sd3" "snd (load_state_dict (ObsDecoder self) sd3) = None"
         "saved_dict ''RewardDecoder'' = Some sd4" "snd (load_state_dict (RewardDecoder self) sd4) = None"
         "saved_dict ''ActionModel'' = Some sd5" "snd (load_state_dict (ActionModel self) sd5) = None"
      unfolding k by (auto simp: load_order_def submodel_named_def)
    from h assms(2) have r: "load_save_dict self saved_dict =
       (self\<lparr>RSSM := fst (load_state_dict (RSSM self) sd1),
           ObsEncoder := fst (load_state_dict (ObsEncoder self) sd2),
           ObsDecoder := fst (load_state_dict (ObsDecoder self) sd3),
           RewardDecoder := fst (load_state_dict (RewardDecoder self) sd4),
           ActionModel := fst (load_state_dict (ActionModel self) sd5)\<rparr>,
        Some (KeyError ''ValueModel''))"
      unfolding k by (rule missing_ValueModel)
    show ?thesis unfolding r k using h
      by (simp add: load_order_def submodel_named_def ok)
  next
    assume k: "k = ''DiscountModel''"
    from assms(3) obtain sd1 sd2 sd3 sd4 sd5 sd6 where
      h: "saved_dict ''RSSM'' = Some sd1" "snd (load_state_dict (RSSM self) sd1) = None"
         "saved_dict ''ObsEncoder'' = Some sd2" "snd (load_state_dict (ObsEncoder self) sd2) = None"
         "saved_dict ''ObsDecoder'' = Some sd3" "snd (load_state_dict (ObsDecoder self) sd3) = None"
         "saved_dict ''RewardDecoder'' = Some sd4" "snd (load_state_dict (RewardDecoder self) sd4) = None"
         "saved_dict ''ActionModel'' = Some sd5" "snd (load_state_dict (ActionModel self) sd5) = None"
         "saved_dict ''ValueModel'' = Some sd6" "snd (load_state_dict (ValueModel self) sd6) = None"
      unfolding k by (auto simp: load_order_def submodel_named_def)
    from h dm assms(2) have r: "load_save_dict self saved_dict =
       (self\<lparr>RSSM := fst (load_state_dict (RSSM self) sd1),
           ObsEncoder := fst (load_state_dict (ObsEncoder self) sd2),
           ObsDecoder := fst (load_state_dict (ObsDecoder self) sd3),
           RewardDecoder := fst (load_state_dict (RewardDecoder self) sd4),
           ActionModel := fst (load_state_dict (ActionModel self) sd5),
           ValueModel := fst (load_state_dict (ValueModel self) sd6)\<rparr>,
        Some (KeyError ''DiscountModel''))"
      unfolding k by (rule missing_DiscountModel)
    show ?thesis unfolding r k using h
      by (simp add: load_order_def submodel_named_def ok)
  qed
qed

section \<open>Tensor operations on agreeing shapes\<close>

lemma collect_all_Inr: "collect (map Inr xs) = Inr xs"
  by (induction xs) (simp_all add: bindE_simps)

lemma collect_map_Inr: "collect (map (\<lambda>x. Inr (f x)) xs) = Inr (map f xs)"
  by (induction xs) (simp_all add: bindE_simps)

lemma collect_map2_Inr:
  "collect (map2 (\<lambda>a b. Inr (f a b)) r r') = Inr (map2 f r r')"
  using collect_map_Inr [of "\<lambda>p. f (fst p) (snd p)" "zip r r'"]
  by (simp add: split_def)

lemma broadcast_same_row:
  "length r = length r' \<Longrightarrow> broadcast (\<lambda>a b. Inr (f a b)) r r' = Inr (map2 f r r')"
  by (simp add: broadcast_def collect_map2_Inr)

lemma tensor_op_same_shape:
  assumes "has_shape T B x" and "has_shape T B y"
  shows "tensor_op f x y = Inr (map2 (map2 f) x y)"
proof -
  from assms have len: "length x = length y"
    by (simp add: has_shape_def)
  from assms have rows: "list_all (\<lambda>r. length r = B) x" "list_all (\<lambda>r. length r = B) y"
    by (simp_all add: has_shape_def)
  from len rows have "collect (map2 (broadcast (\<lambda>a b. Inr (f a b))) x y) = Inr (map2 (map2 f) x y)"
  proof (induction x y rule: list_induct2)
    case Nil
    then show ?case by simp
  next
    case (Cons r x r' y)
    then have "broadcast (\<lambda>a b. Inr (f a b)) r r' = Inr (map2 f r r')"
      by (simp add: broadcast_same_row)
    with Cons show ?case by (simp add: bindE_simps)
  qed
  with len show ?thesis
    by (simp add: tensor_op_def broadcast_def [of "broadcast (\<lambda>a b. Inr (f a b))"])
qed

lemma has_shape_map2:
  assumes "has_shape T B x" and "has_shape T B y"
  shows "has_shape T B (map2 (map2 f) x y)"
proof -
  from assms have len: "length x = length y" and T: "length x = T"
    by (simp_all add: has_shape_def)
  from assms have rows: "list_all (\<lambda>r. length r = B) x" "list_all (\<lambda>r. length r = B) y"
    by (simp_all add: has_shape_def)
  from len rows have "list_all (\<lambda>r. length r = B) (map2 (map2 f) x y)"
    by (induction x y rule: list_induct2) simp_all
  with len T show ?thesis by (simp add: has_shape_def)
qed

lemma has_shape_map: "has_shape T B x \<Longrightarrow> has_shape T B (map (map f) x)"
  by (simp add: has_shape_def list_all_iff)

lemma has_shape_butlast: "has_shape (Suc T) B x \<Longrightarrow> has_shape T B (butlast x)"
  by (auto simp: has_shape_def list_all_iff dest: in_set_butlastD)

lemma has_shape_tl: "has_shape (Suc T) B x \<Longrightarrow> has_shape T B (tl x)"
  by (cases x) (auto simp: has_shape_def)

lemma has_shape_nth: "has_shape T B x \<Longrightarrow> t < T \<Longrightarrow> length (x ! t) = B"
  by (auto simp: has_shape_def list_all_iff)

lemma numel_has_shape: "has_shape T B x \<Longrightarrow> numel x = T * B"
proof -
  assume "has_shape T B x"
  then have "length x = T" "list_all (\<lambda>r. length r = B) x"
    by (simp_all add: has_shape_def)
  then show ?thesis unfolding numel_def
    by (induction x arbitrary: T) auto
qed

text \<open>Sums over a tensor, written with indices.\<close>

lemma sum_list_nth: "sum_list xs = (\<Sum>i<length xs. xs ! i)" for xs :: "real list"
  by (simp add: sum_list_sum_nth atLeast0LessThan)

lemma sum_list_concat_shape:
  fixes x :: tensor
  assumes "has_shape T B x"
  shows "sum_list (concat x) = (\<Sum>t<T. \<Sum>b<B. x ! t ! b)"
proof -
  have "sum_list (concat x) = sum_list (map sum_list x)"
    by (induction x) simp_all
  also have "\<dots> = (\<Sum>t<length x. sum_list (x ! t))"
    by (simp add: sum_list_sum_nth atLeast0LessThan)
  also have "\<dots> = (\<Sum>t<T. \<Sum>b<B. x ! t ! b)"
    using assms
    by (intro sum.cong) (auto simp: has_shape_def list_all_iff sum_list_nth)
  finally show ?thesis .
qed

section \<open>The discount weights\<close>

lemma cumprod_from_length: "length (cumprod_from acc rs) = length rs"
  by (induction rs arbitrary: acc) simp_all

lemma cumprod_from_rows:
  "length acc = B \<Longrightarrow> list_all (\<lambda>r. length r = B) rs \<Longrightarrow>
     list_all (\<lambda>r. length r = B) (cumprod_from acc rs)"
  by (induction rs arbitrary: acc) simp_all

lemma cumprod_from_nth:
  assumes "length acc = B" and "list_all (\<lambda>r. length r = B) rs" and "t < length rs" and "b < B"
  shows "cumprod_from acc rs ! t ! b = acc ! b * (\<Prod>k\<le>t. rs ! k ! b)"
  using assms
proof (induction rs arbitrary: acc t)
  case Nil
  then show ?case by simp
next
  case (Cons r rs)
  from Cons.prems have r: "length r = B" and rs: "list_all (\<lambda>r. length r = B) rs"
    by simp_all
  have acc': "length (map2 (*) acc r) = B"
    using Cons.prems(1) r by simp
  have hd: "map2 (*) acc r ! b = acc ! b * r ! b"
    using Cons.prems(1,4) r by simp
  show ?case
  proof (cases t)
    case 0
    with hd show ?thesis by simp
  next
    case (Suc t')
    with Cons.prems have "t' < length rs" by simp
    from Cons.IH [OF acc' rs this Cons.prems(4)] hd Suc show ?thesis
      by (simp add: prod.atMost_Suc_shift del: prod.atMost_Suc)
  qed
qed

lemma torch_cumprod_shape: "has_shape T B x \<Longrightarrow> has_shape T B (torch_cumprod x)"
  by (cases x) (simp_all add: has_shape_def cumprod_from_length cumprod_from_rows)

lemma torch_cumprod_nth:
  assumes "has_shape T B x" and "t < T" and "b < B"
  shows "torch_cumprod x ! t ! b = (\<Prod>k\<le>t. x ! k ! b)"
proof (cases x)
  case Nil
  with assms show ?thesis by (simp add: has_shape_def)
next
  case (Cons r rs)
  with assms have r: "length r = B" and rs: "list_all (\<lambda>r. length r = B) rs"
    and len: "Suc (length rs) = T"
    by (auto simp: has_shape_def)
  show ?thesis
  proof (cases t)
    case 0
    with Cons show ?thesis by simp
  next
    case (Suc t')
    with assms(2) len have "t' < length rs" by simp
    from cumprod_from_nth [OF r rs this assms(3)] Cons Suc show ?thesis
      by (simp add: prod.atMost_Suc_shift del: prod.atMost_Suc)
  qed
qed

lemma ones_then_tail_shape:
  "has_shape (Suc H) B d \<Longrightarrow> has_shape (Suc H) B (ones_then_tail d)"
  by (cases d) (simp_all add: has_shape_def ones_then_tail_def ones_like_def)

lemma ones_then_tail_nth:
  assumes "has_shape (Suc H) B d" and "k \<le> H" and "b < B"
  shows "ones_then_tail d ! k ! b = (if k = 0 then 1 else d ! k ! b)"
  using assms
  by (cases d; cases k) (simp_all add: has_shape_def ones_then_tail_def ones_like_def)

lemma discount_weights_shape:
  "has_shape (Suc H) B d \<Longrightarrow> has_shape H B (discount_weights d)"
  by (simp add: discount_weights_def Let_def torch_cumprod_shape has_shape_butlast
      ones_then_tail_shape)

lemma discount_weights_nth:
  assumes "has_shape (Suc H) B d" and "t < H" and "b < B"
  shows "discount_weights d ! t ! b = (\<Prod>k = 1..t. d ! k ! b)"
proof -
  let ?x = "butlast (ones_then_tail d)"
  have sh: "has_shape H B ?x"
    using assms(1) by (simp add: has_shape_butlast ones_then_tail_shape)
  have len: "length (ones_then_tail d) = Suc H"
    using ones_then_tail_shape [OF assms(1)] by (simp add: has_shape_def)
  have x: "?x ! k ! b = (if k = 0 then 1 else d ! k ! b)" if "k \<le> t" for k
  proof -
    from that assms(2) have "k < H" by simp
    then have "?x ! k = ones_then_tail d ! k"
      using len by (simp add: nth_butlast)
    with ones_then_tail_nth [OF assms(1) _ assms(3), of k] \<open>k < H\<close> show ?thesis
      by simp
  qed
  have "discount_weights d ! t ! b = (\<Prod>k\<le>t. ?x ! k ! b)"
    using torch_cumprod_nth [OF sh assms(2,3)] by (simp add: discount_weights_def Let_def)
  also have "\<dots> = (\<Prod>k\<le>t. if k = 0 then 1 else d ! k ! b)"
    by (rule prod.cong) (simp_all add: x)
  also have "\<dots> = (\<Prod>k = 1..t. d ! k ! b)"
  proof -
    have "{..t} = insert 0 {1..t}" by auto
    then show ?thesis by simp
  qed
  finally show ?thesis .
qed

section \<open>The two losses as sums over steps and batch entries\<close>

lemma map2_nth2:
  assumes "has_shape T B u" and "has_shape T B v" and "t < T" and "b < B"
  shows "map2 (map2 f) u v ! t ! b = f (u ! t ! b) (v ! t ! b)"
proof -
  from assms have "length u = T" "length v = T" "length (u ! t) = B" "length (v ! t) = B"
    by (simp_all add: has_shape_def has_shape_nth)
  with assms(3,4) show ?thesis by simp
qed

lemma map_nth2:
  assumes "has_shape T B u" and "t < T" and "b < B"
  shows "map (map f) u ! t ! b = f (u ! t ! b)"
proof -
  from assms have "length u = T" "length (u ! t) = B"
    by (simp_all add: has_shape_def has_shape_nth)
  with assms(2,3) show ?thesis by simp
qed

lemma butlast_nth2:
  assumes "has_shape (Suc T) B u" and "t < T"
  shows "butlast u ! t = u ! t"
  using assms by (simp add: has_shape_def nth_butlast)

lemma torch_mean_dim1_shape:
  assumes "has_shape T B x" and "0 < B"
  shows "torch_mean_dim1 x = Inr (map (\<lambda>r. sum_list r / real B) x)"
proof -
  from assms have "list_all (\<lambda>r. length r = B) x"
    by (simp add: has_shape_def)
  with assms(2) have "map row_mean x = map (\<lambda>r. Inr (sum_list r / real B)) x"
    by (intro map_cong) (auto simp: row_mean_def list_all_iff)
  then show ?thesis
    unfolding torch_mean_dim1_def by (simp only: collect_map_Inr)
qed

lemma sum_list_row_means:
  fixes x :: tensor
  assumes "has_shape T B x"
  shows "sum_list (map (\<lambda>r. sum_list r / real B) x) = (\<Sum>t<T. (\<Sum>b<B. x ! t ! b) / real B)"
proof -
  have "sum_list (map (\<lambda>r. sum_list r / real B) x)
      = (\<Sum>t<length x. sum_list (x ! t) / real B)"
    by (simp add: sum_list_sum_nth atLeast0LessThan)
  also have "\<dots> = (\<Sum>t<T. (\<Sum>b<B. x ! t ! b) / real B)"
    using assms
    by (intro sum.cong) (auto simp: has_shape_def list_all_iff sum_list_nth)
  finally show ?thesis .
qed

lemma actor_loss_of_formula:
  assumes w: "has_shape H B w" and R: "has_shape H B R" and e: "has_shape (Suc H) B ent"
    and B: "0 < B" and c: "num scale = Inr c"
  shows "actor_loss_of scale w R ent
     = Inr (- (\<Sum>t<H. (\<Sum>b<B. w ! t ! b * (R ! t ! b + c * ent ! t ! b)) / real B))"
proof -
  let ?e = "map (map (\<lambda>x. c * x)) (butlast ent)"
  let ?inner = "map2 (map2 (+)) R ?e"
  let ?weighted = "map2 (map2 (*)) w ?inner"
  have e': "has_shape H B (butlast ent)"
    using e by (rule has_shape_butlast)
  then have se: "has_shape H B ?e"
    by (rule has_shape_map)
  have si: "has_shape H B ?inner"
    using R se by (rule has_shape_map2)
  have sw: "has_shape H B ?weighted"
    using w si by (rule has_shape_map2)
  have entry: "?weighted ! t ! b = w ! t ! b * (R ! t ! b + c * ent ! t ! b)"
    if "t < H" "b < B" for t b
  proof -
    have "?weighted ! t ! b = w ! t ! b * ?inner ! t ! b"
      by (rule map2_nth2 [OF w si that])
    also have "?inner ! t ! b = R ! t ! b + ?e ! t ! b"
      by (rule map2_nth2 [OF R se that])
    also have "?e ! t ! b = c * butlast ent ! t ! b"
      by (rule map_nth2 [OF e' that])
    also have "butlast ent ! t = ent ! t"
      by (rule butlast_nth2 [OF e that(1)])
    finally show ?thesis .
  qed
  have "actor_loss_of scale w R ent = Inr (- sum_list (map (\<lambda>r. sum_list r / real B) ?weighted))"
    by (simp add: actor_loss_of_def Let_def c bindE_simps tensor_op_same_shape [OF R se]
        tensor_op_same_shape [OF w si] torch_mean_dim1_shape [OF sw B])
  also have "sum_list (map (\<lambda>r. sum_list r / real B) ?weighted)
      = (\<Sum>t<H. (\<Sum>b<B. ?weighted ! t ! b) / real B)"
    using sw by (rule sum_list_row_means)
  also have "\<dots> = (\<Sum>t<H. (\<Sum>b<B. w ! t ! b * (R ! t ! b + c * ent ! t ! b)) / real B)"
    by (intro sum.cong arg_cong2 [where f = "(/)"]) (simp_all add: entry)
  finally show ?thesis .
qed

lemma value_loss_of_formula:
  assumes ms: "has_shape (Suc H) B ms" and w: "has_shape H B w" and R: "has_shape H B R"
  shows "value_loss_of ext self ms w R
     = Inr (\<Sum>t<H. \<Sum>b<B.
              0.5 * (w ! t ! b * (R ! t ! b - ValueModel_call ext (ValueModel self) (ms ! t ! b))) ^ 2)"
proof -
  let ?V = "ValueModel_call ext (ValueModel self)"
  let ?p = "map (map ?V) (butlast ms)"
  let ?err = "map2 (map2 (-)) R ?p"
  let ?werr = "map2 (map2 (*)) w ?err"
  let ?sq = "map (map (\<lambda>x. 0.5 * x ^ 2)) ?werr"
  have m': "has_shape H B (butlast ms)"
    using ms by (rule has_shape_butlast)
  then have sp: "has_shape H B ?p"
    by (rule has_shape_map)
  have se: "has_shape H B ?err"
    using R sp by (rule has_shape_map2)
  have sw: "has_shape H B ?werr"
    using w se by (rule has_shape_map2)
  have ss: "has_shape H B ?sq"
    using sw by (rule has_shape_map)
  have entry: "?sq ! t ! b = 0.5 * (w ! t ! b * (R ! t ! b - ?V (ms ! t ! b))) ^ 2"
    if "t < H" "b < B" for t b
  proof -
    have "?sq ! t ! b = 0.5 * (?werr ! t ! b) ^ 2"
      by (rule map_nth2 [OF sw that])
    also have "?werr ! t ! b = w ! t ! b * ?err ! t ! b"
      by (rule map2_nth2 [OF w se that])
    also have "?err ! t ! b = R ! t ! b - ?p ! t ! b"
      by (rule map2_nth2 [OF R sp that])
    also have "?p ! t ! b = ?V (butlast ms ! t ! b)"
      by (rule map_nth2 [OF m' that])
    also have "butlast ms ! t = ms ! t"
      by (rule butlast_nth2 [OF ms that(1)])
    finally show ?thesis .
  qed
  have "value_loss_of ext self ms w R = Inr (sum_list (concat ?sq))"
    by (simp add: value_loss_of_def Let_def call_head_def bindE_simps torch_detach_def
        tensor_op_same_shape [OF R sp] tensor_op_same_shape [OF w se] torch_mean_def numel_def)
  also have "sum_list (concat ?sq) = (\<Sum>t<H. \<Sum>b<B. ?sq ! t ! b)"
    using ss by (rule sum_list_concat_shape)
  also have "\<dots> = (\<Sum>t<H. \<Sum>b<B. 0.5 * (w ! t ! b * (R ! t ! b - ?V (ms ! t ! b))) ^ 2)"
  proof (intro sum.cong refl)
    fix t b assume "t \<in> {..<H}" "b \<in> {..<B}"
    then have "t < H" "b < B" by simp_all
    then show "?sq ! t ! b = 0.5 * (w ! t ! b * (R ! t ! b - ?V (ms ! t ! b))) ^ 2"
      by (rule entry)
  qed
  finally show ?thesis .
qed

lemma imag_value_of_shape:
  assumes "imag_value_of ext self ms = Inr v" and "has_shape T B ms"
  shows "has_shape T B v"
  using assms
  by (auto simp: imag_value_of_def call_head_def bindE_Inr_iff has_shape_map split: if_splits)

lemma dist_mean_call_head_shape:
  "has_shape T B ms \<Longrightarrow> has_shape T B (dist_mean (call_head f ms))"
  by (simp add: dist_mean_def call_head_def has_shape_map)

lemma imag_reward_of_shape:
  "has_shape T B ms \<Longrightarrow> has_shape T B (imag_reward_of ext self ms)"
  by (simp add: imag_reward_of_def Let_def dist_mean_call_head_shape)

lemma actorcritc_loss_unfold:
  assumes "py_minus1 (seq_len self) = Inr l1"
    and "rssm_seq_to_batch ext posterior (batch_size self) l1 = Inr batched"
    and "rollout_imagination ext (RSSM self) (horizon self) (ActionModel self)
           (rssm_detach batched) = Inr (states, ent)"
    and "imag_value_of ext self (get_modelstate ext states) = Inr v"
    and "DiscountModel self = Some dm"
    and "v \<noteq> []"
    and "compute_return ext (butlast (imag_reward_of ext self (get_modelstate ext states)))
           (butlast v)
           (butlast (dist_mean (call_head (DiscountModel_call ext dm) (get_modelstate ext states))))
           (last v) (lambda_p self) = Inr R"
  shows "actorcritc_loss ext self posterior =
     bindE (actor_loss_of (actor_entropy_scale self)
              (discount_weights
                 (dist_mean (call_head (DiscountModel_call ext dm) (get_modelstate ext states))))
              R ent) (\<lambda>a.
     bindE (value_loss_of ext self (get_modelstate ext states)
              (discount_weights
                 (dist_mean (call_head (DiscountModel_call ext dm) (get_modelstate ext states))))
              R) (\<lambda>vl. Inr (a, vl)))"
  using assms
  by (simp add: actorcritc_loss_def bindE_simps Let_def get_DiscountModel_def last_step_def)

section \<open>Running the example\<close>

lemma example_trainer_fields:
  "seq_len example_trainer = PyInt 3" "batch_size example_trainer = PyInt 2"
  "horizon example_trainer = PyInt 2" "lambda_p example_trainer = PyFloat (1 / 2)"
  "actor_entropy_scale example_trainer = PyFloat (1 / 2)"
  "kl_scale example_trainer = PyFloat 2" "pcont_scale example_trainer = PyFloat 3"
  "use_fixed_target example_trainer = PyBool True"
  "DiscountModel example_trainer = Some [(''w'', [5])]"
  "TargetValueModel example_trainer = Some [(''w'', [4]), (''b'', [1, 2])]"
  "ValueModel example_trainer = [(''w'', [4]), (''b'', [1, 2])]"
  "RewardDecoder example_trainer = [(''w'', [3])]"
  "kl_balancing_scale example_trainer = PyFloat (1 / 2)"
  by (simp_all add: example_trainer_def init_attributes_def example_fresh_def)

lemma example_externals_fields:
  "rssm_seq_to_batch example_externals s b (PyInt i) = Inr [concat (take (nat i) s)]"
  "rollout_imagination example_externals m (PyInt i) a s =
     Inr (map (\<lambda>k. map (map (\<lambda>x. x / 2 ^ k)) (concat s)) [0..<nat i + 1],
          map (\<lambda>k. map (\<lambda>x. 1) (concat s)) [0..<nat i + 1])"
  "get_modelstate example_externals s = s"
  "ValueModel_call example_externals m x = first_weight m * sum_list x"
  "e_mean (RewardDecoder_call example_externals m x) = sum_list x"
  "e_mean (DiscountModel_call example_externals m x) = 1 / (1 + (sum_list x) ^ 2)"
  "compute_return example_externals r v d boot l =
     bindE (num l) (\<lambda>lv. Inr (lambda_return_rows lv r v d boot))"
  by (simp_all add: example_externals_def)

lemma upt3: "[0..<3] = [0, 1, 2]" "[0..<4] = [0, 1, 2, 3]"
  by (simp_all add: upt_rec)

lemma ex_a2: "rssm_seq_to_batch example_externals example_obs (batch_size example_trainer) (PyInt 2)
    = Inr [[[1], [2], [2], [0]]]"
  by (simp add: example_externals_fields example_obs_def)

lemma ex_a3: "rollout_imagination example_externals (RSSM example_trainer) (horizon example_trainer)
     (ActionModel example_trainer) (rssm_detach [[[1], [2], [2], [0]]])
    = Inr (example_imag, example_entropy)"
  by (simp add: example_externals_fields example_trainer_fields rssm_detach_def upt3
      example_imag_def example_entropy_def)

lemma ex_v: "imag_value_of example_externals example_trainer example_imag
    = Inr [[4, 8, 8, 0], [2, 4, 4, 0], [1, 2, 2, 0]]"
  by (simp add: imag_value_of_def example_trainer_fields get_TargetValueModel_def bindE_simps
      call_head_def example_externals_fields first_weight_def example_imag_def)

lemma ex_d: "example_discounts
    = dist_mean (call_head (DiscountModel_call example_externals [(''w'', [5])]) example_imag)"
  by (simp add: dist_mean_def call_head_def example_externals_fields example_imag_def
      example_discounts_def power2_eq_square)

lemma ex_r: "imag_reward_of example_externals example_trainer example_imag
    = [[1, 2, 2, 0], [1 / 2, 1, 1, 0], [1 / 4, 1 / 2, 1 / 2, 0]]"
  by (simp add: imag_reward_of_def dist_mean_def call_head_def example_externals_fields
      example_imag_def)

lemma ex_R: "compute_return example_externals
      (butlast (imag_reward_of example_externals example_trainer example_imag))
      (butlast [[4, 8, 8, 0], [2, 4, 4, 0], [1, 2, 2, 0]]) (butlast example_discounts)
      (last [[4, 8, 8, 0], [2, 4, 4, 0], [1, 2, 2, 0]]) (lambda_p example_trainer)
    = Inr example_returns"
  by (simp add: ex_r example_externals_fields example_trainer_fields bindE_simps
      example_discounts_def example_returns_def upt3 Let_def)

lemma ex_shapes: "has_shape (Suc 2) 4 example_imag" "has_shape (Suc 2) 4 example_entropy"
  "has_shape 2 4 example_returns"
  by (simp_all add: has_shape_def example_imag_def example_entropy_def example_returns_def)

lemma ex_loss: "actorcritc_loss example_externals example_trainer example_obs
    = Inr (- (2693 / 800), 2614569 / 80000)"
proof -
  have w: "discount_weights example_discounts = [[1, 1, 1, 1], [4 / 5, 1 / 2, 1 / 2, 1]]"
    by (simp add: discount_weights_def ones_then_tail_def ones_like_def example_discounts_def)
  have a: "actor_loss_of (PyFloat (1 / 2)) [[1, 1, 1, 1], [4 / 5, 1 / 2, 1 / 2, 1]]
      example_returns example_entropy = Inr (- (2693 / 800))"
    by (simp add: actor_loss_of_def example_returns_def example_entropy_def tensor_op_def
        broadcast_def bindE_simps torch_mean_dim1_def row_mean_def)
  have v: "value_loss_of example_externals example_trainer example_imag
      [[1, 1, 1, 1], [4 / 5, 1 / 2, 1 / 2, 1]] example_returns = Inr (2614569 / 80000)"
    by (simp add: value_loss_of_def example_returns_def example_imag_def tensor_op_def
        broadcast_def bindE_simps torch_mean_def numel_def torch_detach_def call_head_def
        example_externals_fields example_trainer_fields first_weight_def power2_eq_square)
  have "py_minus1 (seq_len example_trainer) = Inr (PyInt 2)"
    by (simp add: example_trainer_fields)
  from actorcritc_loss_unfold [OF this ex_a2 ex_a3, of _ "[(''w'', [5])]" example_returns]
    ex_v ex_R ex_d [symmetric] w a v
  show ?thesis
    by (simp add: example_externals_fields example_trainer_fields bindE_simps)
qed

section \<open>The actor loss\<close>

text \<open>
  Claim C4. When the imagination roll-out returns \<open>H + 1\<close> steps of \<open>B\<close> states with their
  policy entropies and \<^verbatim>\<open>compute_return\<close> returns \<open>H\<close> steps of lambda-returns,
  \<^verbatim>\<open>actorcritc_loss\<close> returns, and its actor loss is the negative of the sum over the steps
  \<open>t < H\<close> of the batch mean of \<open>weight * (lambda_return + entropy_scale * policy_entropy)\<close>.
  The weight at step \<open>t\<close> is the product of the decoded discount factors of the steps
  \<open>1, \<dots>, t\<close>: 1 at step 0, compounding the later factors.
\<close>

theorem actor_loss_is_discounted_sum:
  assumes "py_minus1 (seq_len self) = Inr l1"
    and "rssm_seq_to_batch ext posterior (batch_size self) l1 = Inr batched"
    and "rollout_imagination ext (RSSM self) (horizon self) (ActionModel self)
           (rssm_detach batched) = Inr (states, ent)"
    and ms: "ms = get_modelstate ext states"
    and sm: "has_shape (Suc H) B ms" and se: "has_shape (Suc H) B ent" and B: "0 < B"
    and v: "imag_value_of ext self ms = Inr v"
    and dm: "DiscountModel self = Some dm"
    and d: "d = dist_mean (call_head (DiscountModel_call ext dm) ms)"
    and R: "compute_return ext (butlast (imag_reward_of ext self ms)) (butlast v) (butlast d)
           (last v) (lambda_p self) = Inr R"
    and sR: "has_shape H B R"
    and c: "num (actor_entropy_scale self) = Inr c"
  shows "\<exists>value_loss. actorcritc_loss ext self posterior =
     Inr (- (\<Sum>t<H. (\<Sum>b<B. (\<Prod>k = 1..t. d ! k ! b) * (R ! t ! b + c * ent ! t ! b)) / real B),
          value_loss)"
proof -
  have sd: "has_shape (Suc H) B d"
    unfolding d using sm by (rule dist_mean_call_head_shape)
  then have sw: "has_shape H B (discount_weights d)"
    by (rule discount_weights_shape)
  have "has_shape (Suc H) B v"
    using v sm by (rule imag_value_of_shape)
  then have nv: "v \<noteq> []"
    by (auto simp: has_shape_def)
  have w: "discount_weights d ! t ! b = (\<Prod>k = 1..t. d ! k ! b)" if "t < H" "b < B" for t b
    using sd that by (rule discount_weights_nth)
  have "actor_loss_of (actor_entropy_scale self) (discount_weights d) R ent
      = Inr (- (\<Sum>t<H. (\<Sum>b<B. discount_weights d ! t ! b * (R ! t ! b + c * ent ! t ! b)) / real B))"
    using sw sR se B c by (rule actor_loss_of_formula)
  also have "(\<Sum>t<H. (\<Sum>b<B. discount_weights d ! t ! b * (R ! t ! b + c * ent ! t ! b)) / real B)
      = (\<Sum>t<H. (\<Sum>b<B. (\<Prod>k = 1..t. d ! k ! b) * (R ! t ! b + c * ent ! t ! b)) / real B)"
    by (intro sum.cong arg_cong2 [where f = "(/)"] refl) (simp add: w)
  finally have a: "actor_loss_of (actor_entropy_scale self) (discount_weights d) R ent
      = Inr (- (\<Sum>t<H. (\<Sum>b<B. (\<Prod>k = 1..t. d ! k ! b) * (R ! t ! b + c * ent ! t ! b)) / real B))" .
  have vl: "\<exists>x. value_loss_of ext self ms (discount_weights d) R = Inr x"
    using value_loss_of_formula [OF sm sw sR, of ext self] by blast
  from assms(1-3) v dm nv R
  have "actorcritc_loss ext self posterior =
     bindE (actor_loss_of (actor_entropy_scale self) (discount_weights d) R ent) (\<lambda>a.
     bindE (value_loss_of ext self ms (discount_weights d) R) (\<lambda>vl. Inr (a, vl)))"
    unfolding ms d by (rule actorcritc_loss_unfold)
  with a vl show ?thesis
    by (auto simp: bindE_simps)
qed

text \<open>The example: horizon 2 on a batch of 4.\<close>

theorem actor_loss_is_discounted_sum_witness:
  "actorcritc_loss example_externals example_trainer example_obs
     = Inr (- (2693 / 800), 2614569 / 80000)
   \<and> (\<Sum>t<2. (\<Sum>b<4. (\<Prod>k = 1..t. example_discounts ! k ! b)
          * (example_returns ! t ! b + 1 / 2 * example_entropy ! t ! b)) / real 4) = 2693 / 800"
proof -
  have a1: "py_minus1 (seq_len example_trainer) = Inr (PyInt 2)"
    by (simp add: example_trainer_fields)
  have ms: "example_imag = get_modelstate example_externals example_imag"
    by (simp add: example_externals_fields)
  have B: "0 < (4 :: nat)" by simp
  have dm: "DiscountModel example_trainer = Some [(''w'', [5])]"
    by (simp add: example_trainer_fields)
  have c: "num (actor_entropy_scale example_trainer) = Inr (1 / 2)"
    by (simp add: example_trainer_fields)
  from actor_loss_is_discounted_sum
    [OF a1 ex_a2 ex_a3 ms ex_shapes(1,2) B ex_v dm ex_d ex_R ex_shapes(3) c] ex_loss
  show ?thesis by simp
qed

section \<open>The value loss\<close>

text \<open>
  What line 202 computes when the shapes agree: one term
  \<open>0.5 * (weight * (lambda_return - prediction))\<^sup>2\<close> per imagined step \<open>t < H\<close> and batch
  entry, all terms added up.
\<close>

lemma value_loss_as_computed:
  assumes "py_minus1 (seq_len self) = Inr l1"
    and "rssm_seq_to_batch ext posterior (batch_size self) l1 = Inr batched"
    and "rollout_imagination ext (RSSM self) (horizon self) (ActionModel self)
           (rssm_detach batched) = Inr (states, ent)"
    and ms: "ms = get_modelstate ext states"
    and sm: "has_shape (Suc H) B ms" and se: "has_shape (Suc H) B ent" and B: "0 < B"
    and v: "imag_value_of ext self ms = Inr v"
    and dm: "DiscountModel self = Some dm"
    and d: "d = dist_mean (call_head (DiscountModel_call ext dm) ms)"
    and R: "compute_return ext (butlast (imag_reward_of ext self ms)) (butlast v) (butlast d)
           (last v) (lambda_p self) = Inr R"
    and sR: "has_shape H B R"
    and c: "num (actor_entropy_scale self) = Inr c"
  shows "\<exists>actor_loss. actorcritc_loss ext self posterior =
     Inr (actor_loss,
          \<Sum>t<H. \<Sum>b<B. 0.5 * ((\<Prod>k = 1..t. d ! k ! b)
                  * (R ! t ! b - ValueModel_call ext (ValueModel self) (ms ! t ! b))) ^ 2)"
proof -
  let ?V = "ValueModel_call ext (ValueModel self)"
  have sd: "has_shape (Suc H) B d"
    unfolding d using sm by (rule dist_mean_call_head_shape)
  then have sw: "has_shape H B (discount_weights d)"
    by (rule discount_weights_shape)
  have "has_shape (Suc H) B v"
    using v sm by (rule imag_value_of_shape)
  then have nv: "v \<noteq> []"
    by (auto simp: has_shape_def)
  have w: "discount_weights d ! t ! b = (\<Prod>k = 1..t. d ! k ! b)" if "t < H" "b < B" for t b
    using sd that by (rule discount_weights_nth)
  have "value_loss_of ext self ms (discount_weights d) R
      = Inr (\<Sum>t<H. \<Sum>b<B. 0.5 * (discount_weights d ! t ! b * (R ! t ! b - ?V (ms ! t ! b))) ^ 2)"
    using sm sw sR by (rule value_loss_of_formula)
  also have "(\<Sum>t<H. \<Sum>b<B. 0.5 * (discount_weights d ! t ! b * (R ! t ! b - ?V (ms ! t ! b))) ^ 2)
      = (\<Sum>t<H. \<Sum>b<B. 0.5 * ((\<Prod>k = 1..t. d ! k ! b) * (R ! t ! b - ?V (ms ! t ! b))) ^ 2)"
    by (intro sum.cong refl) (simp add: w)
  finally have vl: "value_loss_of ext self ms (discount_weights d) R
      = Inr (\<Sum>t<H. \<Sum>b<B. 0.5 * ((\<Prod>k = 1..t. d ! k ! b) * (R ! t ! b - ?V (ms ! t ! b))) ^ 2)" .
  have a: "\<exists>x. actor_loss_of (actor_entropy_scale self) (discount_weights d) R ent = Inr x"
    using actor_loss_of_formula [OF sw sR se B c] by blast
  from assms(1-3) v dm nv R
  have "actorcritc_loss ext self posterior =
     bindE (actor_loss_of (actor_entropy_scale self) (discount_weights d) R ent) (\<lambda>a.
     bindE (value_loss_of ext self ms (discount_weights d) R) (\<lambda>vl. Inr (a, vl)))"
    unfolding ms d by (rule actorcritc_loss_unfold)
  with a vl show ?thesis
    by (auto simp: bindE_simps)
qed

text \<open>
  Claim C1. The value loss is to be the mean over the imagined steps (the last excluded) and
  the batch entries of \<open>weight * 0.5 * (lambda_return - prediction)\<^sup>2\<close>. On the example
  roll-out (two steps of four entries, eight terms) that mean is 539541 / 128000, and
  \<^verbatim>\<open>actorcritc_loss\<close> returns 2614569 / 80000: the code takes \<^verbatim>\<open>torch.mean\<close> of the number
  that \<^verbatim>\<open>.sum()\<close> has already reduced, and it squares the discount weight together with the
  error. The returned value is neither the claimed mean nor eight times it. (The roll-out,
  the decoded discounts and the lambda-returns of the example are spelled out with it.)
\<close>

theorem value_loss_not_claimed_mean:
  "actorcritc_loss example_externals example_trainer example_obs
     = Inr (- (2693 / 800), 2614569 / 80000)
   \<and> rollout_imagination example_externals (RSSM example_trainer) (horizon example_trainer)
        (ActionModel example_trainer) (rssm_detach [[[1], [2], [2], [0]]])
      = Inr (example_imag, example_entropy)
   \<and> example_discounts
      = dist_mean (call_head (DiscountModel_call example_externals [(''w'', [5])]) example_imag)
   \<and> compute_return example_externals
        (butlast (imag_reward_of example_externals example_trainer example_imag))
        (butlast [[4, 8, 8, 0], [2, 4, 4, 0], [1, 2, 2, 0]]) (butlast example_discounts)
        (last [[4, 8, 8, 0], [2, 4, 4, 0], [1, 2, 2, 0]]) (lambda_p example_trainer)
      = Inr example_returns
   \<and> claimed_value_loss (discount_weights example_discounts) example_returns
        (call_head (ValueModel_call example_externals (ValueModel example_trainer))
           (butlast example_imag)) = 539541 / 128000
   \<and> (2614569 / 80000 :: real) \<noteq> 539541 / 128000
   \<and> (2614569 / 80000 :: real) \<noteq> 8 * (539541 / 128000)"
proof -
  have "claimed_value_loss (discount_weights example_discounts) example_returns
        (call_head (ValueModel_call example_externals (ValueModel example_trainer))
           (butlast example_imag)) = 539541 / 128000"
    by (simp add: claimed_value_loss_def discount_weights_def ones_then_tail_def ones_like_def
        example_discounts_def example_returns_def example_imag_def call_head_def numel_def
        example_externals_fields example_trainer_fields first_weight_def power2_eq_square)
  with ex_loss ex_a3 ex_R ex_d [symmetric] show ?thesis
    by simp
qed

section \<open>Imagined reward and value\<close>




section \<open>The world-model loss, unfolded\<close>

lemma butlast_as_map: "length xs = L \<Longrightarrow> butlast xs = map (\<lambda>t. xs ! t) [0..<L - 1]"
  by (auto simp: list_eq_iff_nth_eq nth_butlast)

lemma tl_as_map: "length xs = L \<Longrightarrow> tl xs = map (\<lambda>t. xs ! (t + 1)) [0..<L - 1]"
  by (auto simp: list_eq_iff_nth_eq nth_tl)

lemma all_as_map: "length xs = L \<Longrightarrow> xs = map (\<lambda>t. xs ! t) [0..<L]"
  by (auto simp: list_eq_iff_nth_eq)

lemma representation_loss_Inr:
  assumes "init_rssm_state ext (RSSM self) (batch_size self) = Inr prev"
    and "rollout_observation ext (RSSM self) (seq_len self)
           (call_head (ObsEncoder_call ext (ObsEncoder self)) obs) actions prev
         = Inr (prior, posterior)"
    and "representation_loss ext self obs actions rewards nonterms = Inr r"
  shows "\<exists>dm pd qd ks ps.
      DiscountModel self = Some dm
    \<and> private_obs_loss (call_head (ObsDecoder_call ext (ObsDecoder self))
         (get_modelstate ext posterior)) obs = Inr (out_obs_loss r)
    \<and> private_reward_loss (call_head (RewardDecoder_call ext (RewardDecoder self))
         (butlast (get_modelstate ext posterior))) (tl rewards) = Inr (out_reward_loss r)
    \<and> private_pcont_loss (call_head (DiscountModel_call ext dm)
         (butlast (get_modelstate ext posterior))) (tl nonterms) = Inr (out_pcont_loss r)
    \<and> private_kl_loss ext self prior posterior = Inr (pd, qd, out_div r)
    \<and> num (kl_scale self) = Inr ks \<and> num (pcont_scale self) = Inr ps
    \<and> out_model_loss r
        = ks * out_div r + out_reward_loss r + out_obs_loss r + ps * out_pcont_loss r
    \<and> out_posterior r = posterior"
  using assms(3) unfolding representation_loss_def Let_def assms(1,2) bindE_simps
  by (auto simp: bindE_Inr_iff get_DiscountModel_def split: option.splits)

section \<open>Running the world-model loss on the example\<close>

lemma example_externals_observe:
  "init_rssm_state example_externals m b = Inr []"
  "rollout_observation example_externals m l emb actions prev
     = Inr (map (map (map (\<lambda>x. x / 2))) emb, emb)"
  "ObsEncoder_call example_externals m = (\<lambda>x. x)"
  "get_dist example_externals s = map (map sum_list) s"
  "kl_divergence example_externals p q = tensor_op (\<lambda>a b. (a - b) ^ 2) p q"
  "e_log_prob (ObsDecoder_call example_externals m x)
     = (\<lambda>y. - sum_list (map2 (\<lambda>a b. (a - (b + 1)) ^ 2) y x) / 2)"
  "e_log_prob (RewardDecoder_call example_externals m x) = (\<lambda>y. - ((y - sum_list x) ^ 2) / 2)"
  "e_log_prob (DiscountModel_call example_externals m x)
     = (\<lambda>y. - ((y - 1 / (1 + (sum_list x) ^ 2)) ^ 2))"
  by (simp_all add: example_externals_def)

lemma ex_embed: "call_head (ObsEncoder_call example_externals m) example_obs = example_obs"
  by (simp add: call_head_def example_externals_observe)

lemma ex_roll:
  "rollout_observation example_externals (RSSM example_trainer) (seq_len example_trainer)
     (call_head (ObsEncoder_call example_externals (ObsEncoder example_trainer)) example_obs)
     example_actions []
   = Inr ([[[1 / 2], [1]], [[1], [0]], [[2], [1]]], example_obs)"
  unfolding ex_embed by (simp add: example_externals_observe example_obs_def)

lemma ex_kl:
  "private_kl_loss example_externals example_trainer [[[1 / 2], [1]], [[1], [0]], [[2], [1]]]
     example_obs
   = Inr ([[1 / 2, 1], [1, 0], [2, 1]], [[1, 2], [2, 0], [4, 2]], 29 / 24)"
  by (simp add: private_kl_loss_def example_trainer_fields example_externals_observe
      rssm_detach_def example_obs_def tensor_op_def broadcast_def bindE_simps torch_mean_def
      numel_def Let_def power2_eq_square)

lemma ex_rep_shapes:
  "has_shape 3 2 example_obs" "has_shape 3 2 example_rewards" "has_shape 3 2 example_nonterms"
  by (simp_all add: has_shape_def example_obs_def example_rewards_def example_nonterms_def)

lemma ex_obs_loss:
  "private_obs_loss (call_head (ObsDecoder_call example_externals m) example_obs) example_obs
     = Inr (1 / 2)"
  by (simp add: private_obs_loss_def log_prob_def call_head_def example_obs_def tensor_op_def
      broadcast_def bindE_simps torch_mean_def numel_def example_externals_observe)

lemma ex_reward_loss:
  "private_reward_loss
     (call_head (RewardDecoder_call example_externals m) (butlast example_obs))
     (tl example_rewards) = Inr (3 / 2)"
  by (simp add: private_reward_loss_def log_prob_def call_head_def example_obs_def
      example_rewards_def tensor_op_def broadcast_def bindE_simps torch_mean_def numel_def
      example_externals_observe)

lemma ex_pcont_loss:
  "private_pcont_loss
     (call_head (DiscountModel_call example_externals m) (butlast example_obs))
     (tl example_nonterms) = Inr (253 / 400)"
  by (simp add: private_pcont_loss_def log_prob_def call_head_def example_obs_def
      example_nonterms_def tensor_op_def broadcast_def bindE_simps torch_mean_def numel_def
      example_externals_observe power2_eq_square Let_def)

lemma ex_rep:
  "representation_loss example_externals example_trainer example_obs example_actions
     example_rewards example_nonterms
   = Inr \<lparr>out_model_loss = 7577 / 1200, out_div = 29 / 24, out_obs_loss = 1 / 2,
          out_reward_loss = 3 / 2, out_pcont_loss = 253 / 400,
          out_prior_dist = [[1 / 2, 1], [1, 0], [2, 1]],
          out_post_dist = [[1, 2], [2, 0], [4, 2]],
          out_posterior = example_obs\<rparr>"
  unfolding representation_loss_def Let_def ex_roll example_externals_observe(1) bindE_simps
  by (simp add: example_externals_fields get_DiscountModel_def example_trainer_fields
      bindE_simps ex_obs_loss ex_reward_loss ex_pcont_loss ex_kl)

section \<open>Reward and discount are decoded one step behind\<close>

text \<open>
  Claim C5. Let the posterior roll-out have \<open>L\<close> steps (\<open>L\<close> is \<^verbatim>\<open>seq_len\<close>), as do the reward
  and non-terminal targets. When \<^verbatim>\<open>representation_loss\<close> returns, its observation loss is
  scored on the decoder's output at all steps \<open>0, \<dots>, L - 1\<close> of the posterior model states,
  while its reward loss and its discount loss are scored on the heads' outputs at the steps
  \<open>0, \<dots>, L - 2\<close> only, against the targets of the steps \<open>1, \<dots>, L - 1\<close>: the target at
  position \<open>t\<close> is the one of step \<open>t + 1\<close>.
\<close>

theorem reward_and_discount_one_step_behind:
  assumes init: "init_rssm_state ext (RSSM self) (batch_size self) = Inr prev"
    and roll: "rollout_observation ext (RSSM self) (seq_len self)
           (call_head (ObsEncoder_call ext (ObsEncoder self)) obs) actions prev
         = Inr (prior, posterior)"
    and sl: "seq_len self = PyInt (int L)"
    and pm: "pm = get_modelstate ext posterior"
    and len: "length pm = L" "length rewards = L" "length nonterms = L"
    and res: "representation_loss ext self obs actions rewards nonterms = Inr r"
  shows "\<exists>dm. DiscountModel self = Some dm
    \<and> private_obs_loss
        (map (\<lambda>t. map (ObsDecoder_call ext (ObsDecoder self)) (pm ! t)) [0..<L]) obs
      = Inr (out_obs_loss r)
    \<and> private_reward_loss
        (map (\<lambda>t. map (RewardDecoder_call ext (RewardDecoder self)) (pm ! t)) [0..<L - 1])
        (map (\<lambda>t. rewards ! (t + 1)) [0..<L - 1])
      = Inr (out_reward_loss r)
    \<and> private_pcont_loss
        (map (\<lambda>t. map (DiscountModel_call ext dm) (pm ! t)) [0..<L - 1])
        (map (\<lambda>t. nonterms ! (t + 1)) [0..<L - 1])
      = Inr (out_pcont_loss r)"
proof -
  from representation_loss_Inr [OF init roll res] obtain dm where
    dm: "DiscountModel self = Some dm"
    and ol: "private_obs_loss (call_head (ObsDecoder_call ext (ObsDecoder self)) pm) obs
        = Inr (out_obs_loss r)"
    and rl: "private_reward_loss (call_head (RewardDecoder_call ext (RewardDecoder self))
         (butlast pm)) (tl rewards) = Inr (out_reward_loss r)"
    and pl: "private_pcont_loss (call_head (DiscountModel_call ext dm) (butlast pm))
         (tl nonterms) = Inr (out_pcont_loss r)"
    unfolding pm by blast
  have full: "call_head f pm = map (\<lambda>t. map f (pm ! t)) [0..<L]" for f :: "real list \<Rightarrow> 'x"
  proof -
    have "call_head f pm = map (map f) (map (\<lambda>t. pm ! t) [0..<L])"
      using all_as_map [OF len(1)] by (simp add: call_head_def)
    then show ?thesis by (simp add: comp_def)
  qed
  have front: "call_head f (butlast pm) = map (\<lambda>t. map f (pm ! t)) [0..<L - 1]"
    for f :: "real list \<Rightarrow> 'x"
    by (simp add: call_head_def butlast_as_map [OF len(1)] comp_def)
  from dm ol rl pl show ?thesis
    by (simp add: full front tl_as_map [OF len(2)] tl_as_map [OF len(3)])
qed

text \<open>The example: three steps, two batch entries.\<close>

theorem reward_and_discount_one_step_behind_witness:
  "representation_loss example_externals example_trainer example_obs example_actions
     example_rewards example_nonterms
   = Inr \<lparr>out_model_loss = 7577 / 1200, out_div = 29 / 24, out_obs_loss = 1 / 2,
          out_reward_loss = 3 / 2, out_pcont_loss = 253 / 400,
          out_prior_dist = [[1 / 2, 1], [1, 0], [2, 1]],
          out_post_dist = [[1, 2], [2, 0], [4, 2]],
          out_posterior = example_obs\<rparr>
   \<and> private_obs_loss
        (map (\<lambda>t. map (ObsDecoder_call example_externals (ObsDecoder example_trainer))
                     (example_obs ! t)) [0..<3]) example_obs
      = Inr (1 / 2)
   \<and> private_reward_loss
        (map (\<lambda>t. map (RewardDecoder_call example_externals (RewardDecoder example_trainer))
                     (example_obs ! t)) [0..<3 - 1])
        (map (\<lambda>t. example_rewards ! (t + 1)) [0..<3 - 1])
      = Inr (3 / 2)
   \<and> private_pcont_loss
        (map (\<lambda>t. map (DiscountModel_call example_externals [(''w'', [5])])
                     (example_obs ! t)) [0..<3 - 1])
        (map (\<lambda>t. example_nonterms ! (t + 1)) [0..<3 - 1])
      = Inr (253 / 400)"
proof -
  have init: "init_rssm_state example_externals (RSSM example_trainer)
      (batch_size example_trainer) = Inr []"
    by (simp add: example_externals_observe)
  have sl: "seq_len example_trainer = PyInt (int 3)"
    by (simp add: example_trainer_fields)
  have pm: "example_obs = get_modelstate example_externals example_obs"
    by (simp add: example_externals_fields)
  have len: "length example_obs = 3" "length example_rewards = 3" "length example_nonterms = 3"
    by (simp_all add: example_obs_def example_rewards_def example_nonterms_def)
  from reward_and_discount_one_step_behind [OF init ex_roll sl pm len ex_rep] ex_rep
  show ?thesis
    by (auto simp: example_trainer_fields)
qed

section \<open>Mean log-likelihoods\<close>

lemma neg_mean_log_prob:
  assumes d: "has_shape T B d" and x: "has_shape T B x" and T: "0 < T" and B: "0 < B"
  shows "bindE (log_prob d x) (\<lambda>lp. bindE (torch_mean lp) (\<lambda>m. Inr (- m)))
     = Inr (- ((\<Sum>t<T. \<Sum>b<B. e_log_prob (d ! t ! b) (x ! t ! b)) / real (T * B)))"
proof -
  let ?lp = "map2 (map2 e_log_prob) d x"
  have s: "has_shape T B ?lp"
    using d x by (rule has_shape_map2)
  then have n: "numel ?lp = T * B"
    by (rule numel_has_shape)
  have "sum_list (concat ?lp) = (\<Sum>t<T. \<Sum>b<B. ?lp ! t ! b)"
    using s by (rule sum_list_concat_shape)
  also have "\<dots> = (\<Sum>t<T. \<Sum>b<B. e_log_prob (d ! t ! b) (x ! t ! b))"
  proof (intro sum.cong refl)
    fix t b assume "t \<in> {..<T}" "b \<in> {..<B}"
    then have "t < T" "b < B" by simp_all
    with d x show "?lp ! t ! b = e_log_prob (d ! t ! b) (x ! t ! b)"
      by (rule map2_nth2)
  qed
  finally have sum: "sum_list (concat ?lp) = (\<Sum>t<T. \<Sum>b<B. e_log_prob (d ! t ! b) (x ! t ! b))" .
  have "log_prob d x = Inr ?lp"
    unfolding log_prob_def using d x by (rule tensor_op_same_shape)
  moreover have "torch_mean ?lp = Inr (sum_list (concat ?lp) / real (T * B))"
    using n T B by (simp add: torch_mean_def)
  ultimately show ?thesis
    by (simp add: bindE_simps sum)
qed

lemma head_loss_formula:
  fixes f :: "real list \<Rightarrow> 'x edist"
  assumes pm: "has_shape T B pm" and x: "has_shape T B x" and T: "0 < T" and B: "0 < B"
  shows "bindE (log_prob (call_head f pm) x) (\<lambda>lp. bindE (torch_mean lp) (\<lambda>m. Inr (- m)))
     = Inr (- ((\<Sum>t<T. \<Sum>b<B. e_log_prob (f (pm ! t ! b)) (x ! t ! b)) / real (T * B)))"
proof -
  have d: "has_shape T B (call_head f pm)"
    unfolding call_head_def using pm by (rule has_shape_map)
  have "(\<Sum>t<T. \<Sum>b<B. e_log_prob (call_head f pm ! t ! b) (x ! t ! b))
      = (\<Sum>t<T. \<Sum>b<B. e_log_prob (f (pm ! t ! b)) (x ! t ! b))"
  proof (intro sum.cong refl)
    fix t b assume "t \<in> {..<T}" "b \<in> {..<B}"
    then have tb: "t < T" "b < B" by simp_all
    have "call_head f pm ! t ! b = f (pm ! t ! b)"
      unfolding call_head_def using pm tb by (rule map_nth2)
    then show "e_log_prob (call_head f pm ! t ! b) (x ! t ! b)
        = e_log_prob (f (pm ! t ! b)) (x ! t ! b)"
      by simp
  qed
  with neg_mean_log_prob [OF d x T B] show ?thesis by simp
qed

lemma shifted_loss_formula:
  fixes f :: "real list \<Rightarrow> 'x edist"
  assumes pm: "has_shape (Suc T) B pm" and x: "has_shape (Suc T) B x"
    and T: "0 < T" and B: "0 < B"
  shows "bindE (log_prob (call_head f (butlast pm)) (tl x))
           (\<lambda>lp. bindE (torch_mean lp) (\<lambda>m. Inr (- m)))
     = Inr (- ((\<Sum>t<T. \<Sum>b<B. e_log_prob (f (pm ! t ! b)) (x ! (t + 1) ! b)) / real (T * B)))"
proof -
  have pm': "has_shape T B (butlast pm)"
    using pm by (rule has_shape_butlast)
  have x': "has_shape T B (tl x)"
    using x by (rule has_shape_tl)
  have lx: "length x = Suc T"
    using x by (simp add: has_shape_def)
  have "(\<Sum>t<T. \<Sum>b<B. e_log_prob (f (butlast pm ! t ! b)) (tl x ! t ! b))
      = (\<Sum>t<T. \<Sum>b<B. e_log_prob (f (pm ! t ! b)) (x ! (t + 1) ! b))"
  proof (intro sum.cong refl)
    fix t b assume "t \<in> {..<T}" "b \<in> {..<B}"
    then have t: "t < T" by simp
    have "butlast pm ! t = pm ! t"
      using pm t by (rule butlast_nth2)
    moreover have "tl x ! t = x ! (t + 1)"
      using lx t by (simp add: nth_tl)
    ultimately show "e_log_prob (f (butlast pm ! t ! b)) (tl x ! t ! b)
        = e_log_prob (f (pm ! t ! b)) (x ! (t + 1) ! b)"
      by simp
  qed
  with head_loss_formula [OF pm' x' T B, of f] show ?thesis by simp
qed

section \<open>The total world-model loss\<close>

text \<open>
  Claim C6. On a batch of \<open>L \<ge> 2\<close> steps and \<open>B > 0\<close> entries, with the roll-out, the KL
  loss and the two scale factors at hand, \<^verbatim>\<open>representation_loss\<close> returns, and its total is
  \<open>kl_scale * KL + reward_loss + obs_loss + pcont_scale * pcont_loss\<close>. Each of the three
  decoder losses is the negative mean log-likelihood of its target under the decoded
  distribution: the observations at all steps, the rewards and the non-terminal indicators
  shifted by one step.
\<close>

theorem world_model_loss_is_weighted_sum:
  assumes init: "init_rssm_state ext (RSSM self) (batch_size self) = Inr prev"
    and roll: "rollout_observation ext (RSSM self) (seq_len self)
           (call_head (ObsEncoder_call ext (ObsEncoder self)) obs) actions prev
         = Inr (prior, posterior)"
    and pm: "pm = get_modelstate ext posterior"
    and sp: "has_shape L B pm" and so: "has_shape L B obs"
    and sr: "has_shape L B rewards" and sn: "has_shape L B nonterms"
    and L: "2 \<le> L" and B: "0 < B"
    and dm: "DiscountModel self = Some dm"
    and kl: "private_kl_loss ext self prior posterior = Inr (pd, qd, kl)"
    and ks: "num (kl_scale self) = Inr ks" and ps: "num (pcont_scale self) = Inr ps"
  shows "\<exists>r. representation_loss ext self obs actions rewards nonterms = Inr r
    \<and> out_model_loss r
        = ks * out_div r + out_reward_loss r + out_obs_loss r + ps * out_pcont_loss r
    \<and> out_div r = kl
    \<and> out_obs_loss r
        = - ((\<Sum>t<L. \<Sum>b<B.
               e_log_prob (ObsDecoder_call ext (ObsDecoder self) (pm ! t ! b)) (obs ! t ! b))
             / real (L * B))
    \<and> out_reward_loss r
        = - ((\<Sum>t<L - 1. \<Sum>b<B.
               e_log_prob (RewardDecoder_call ext (RewardDecoder self) (pm ! t ! b))
                 (rewards ! (t + 1) ! b))
             / real ((L - 1) * B))
    \<and> out_pcont_loss r
        = - ((\<Sum>t<L - 1. \<Sum>b<B.
               e_log_prob (DiscountModel_call ext dm (pm ! t ! b)) (nonterms ! (t + 1) ! b))
             / real ((L - 1) * B))"
proof -
  from L obtain T where T: "L = Suc T" "0 < T"
    by (cases L) auto
  have L0: "0 < L" using L by simp
  let ?ol = "- ((\<Sum>t<L. \<Sum>b<B.
               e_log_prob (ObsDecoder_call ext (ObsDecoder self) (pm ! t ! b)) (obs ! t ! b))
             / real (L * B))"
  let ?rl = "- ((\<Sum>t<T. \<Sum>b<B.
               e_log_prob (RewardDecoder_call ext (RewardDecoder self) (pm ! t ! b))
                 (rewards ! (t + 1) ! b))
             / real (T * B))"
  let ?pl = "- ((\<Sum>t<T. \<Sum>b<B.
               e_log_prob (DiscountModel_call ext dm (pm ! t ! b)) (nonterms ! (t + 1) ! b))
             / real (T * B))"
  have ol: "private_obs_loss (call_head (ObsDecoder_call ext (ObsDecoder self)) pm) obs = Inr ?ol"
    unfolding private_obs_loss_def using sp so L0 B by (rule head_loss_formula)
  have rl: "private_reward_loss (call_head (RewardDecoder_call ext (RewardDecoder self))
      (butlast pm)) (tl rewards) = Inr ?rl"
    unfolding private_reward_loss_def
    using sp [unfolded T] sr [unfolded T] T(2) B by (rule shifted_loss_formula)
  have pl: "private_pcont_loss (call_head (DiscountModel_call ext dm) (butlast pm)) (tl nonterms)
      = Inr ?pl"
    unfolding private_pcont_loss_def Let_def
    using sp [unfolded T] sn [unfolded T] T(2) B by (rule shifted_loss_formula)
  have "representation_loss ext self obs actions rewards nonterms
      = Inr \<lparr>out_model_loss = ks * kl + ?rl + ?ol + ps * ?pl, out_div = kl,
             out_obs_loss = ?ol, out_reward_loss = ?rl, out_pcont_loss = ?pl,
             out_prior_dist = pd, out_post_dist = qd, out_posterior = posterior\<rparr>"
    unfolding representation_loss_def Let_def init roll bindE_simps
    by (simp add: pm [symmetric] get_DiscountModel_def dm bindE_simps ol rl pl kl ks ps)
  then show ?thesis
    by (simp add: T)
qed

text \<open>The example: 7577 / 1200 in total.\<close>

theorem world_model_loss_is_weighted_sum_witness:
  "representation_loss example_externals example_trainer example_obs example_actions
     example_rewards example_nonterms
   = Inr \<lparr>out_model_loss = 7577 / 1200, out_div = 29 / 24, out_obs_loss = 1 / 2,
          out_reward_loss = 3 / 2, out_pcont_loss = 253 / 400,
          out_prior_dist = [[1 / 2, 1], [1, 0], [2, 1]],
          out_post_dist = [[1, 2], [2, 0], [4, 2]],
          out_posterior = example_obs\<rparr>
   \<and> (7577 / 1200 :: real) = 2 * (29 / 24) + 3 / 2 + 1 / 2 + 3 * (253 / 400)
   \<and> - ((\<Sum>t<3 - 1. \<Sum>b<2.
          e_log_prob (RewardDecoder_call example_externals (RewardDecoder example_trainer)
                        (example_obs ! t ! b)) (example_rewards ! (t + 1) ! b))
        / real ((3 - 1) * 2)) = 3 / 2"
proof -
  have init: "init_rssm_state example_externals (RSSM example_trainer)
      (batch_size example_trainer) = Inr []"
    by (simp add: example_externals_observe)
  have pm: "example_obs = get_modelstate example_externals example_obs"
    by (simp add: example_externals_fields)
  have L: "2 \<le> (3 :: nat)" and B: "0 < (2 :: nat)"
    by simp_all
  have dm: "DiscountModel example_trainer = Some [(''w'', [5])]"
    by (simp add: example_trainer_fields)
  have ks: "num (kl_scale example_trainer) = Inr 2"
    and ps: "num (pcont_scale example_trainer) = Inr 3"
    by (simp_all add: example_trainer_fields)
  from world_model_loss_is_weighted_sum
    [OF init ex_roll pm ex_rep_shapes(1) ex_rep_shapes(1) ex_rep_shapes(2,3) L B dm ex_kl ks ps]
    ex_rep
  show ?thesis
    by auto
qed

section \<open>Loading restores the sub-models in order\<close>

text \<open>The loading of a complete dictionary whose entries all fit.\<close>

lemma all_loaded:
  assumes "saved_dict ''RSSM'' = Some sd1" "snd (load_state_dict (RSSM self) sd1) = None"
    and "saved_dict ''ObsEncoder'' = Some sd2" "snd (load_state_dict (ObsEncoder self) sd2) = None"
    and "saved_dict ''ObsDecoder'' = Some sd3" "snd (load_state_dict (ObsDecoder self) sd3) = None"
    and "saved_dict ''RewardDecoder'' = Some sd4" "snd (load_state_dict (RewardDecoder self) sd4) = None"
    and "saved_dict ''ActionModel'' = Some sd5" "snd (load_state_dict (ActionModel self) sd5) = None"
    and "saved_dict ''ValueModel'' = Some sd6" "snd (load_state_dict (ValueModel self) sd6) = None"
    and "DiscountModel self = Some dm"
    and "saved_dict ''DiscountModel'' = Some sd7" "snd (load_state_dict dm sd7) = None"
  shows "load_save_dict self saved_dict =
     (self\<lparr>RSSM := fst (load_state_dict (RSSM self) sd1),
           ObsEncoder := fst (load_state_dict (ObsEncoder self) sd2),
           ObsDecoder := fst (load_state_dict (ObsDecoder self) sd3),
           RewardDecoder := fst (load_state_dict (RewardDecoder self) sd4),
           ActionModel := fst (load_state_dict (ActionModel self) sd5),
           ValueModel := fst (load_state_dict (ValueModel self) sd6),
           DiscountModel := Some (fst (load_state_dict dm sd7))\<rparr>,
      None)"
  using assms by (simp add: load_save_dict_def load_entry_loaded Let_def)

lemma load_save_dict_complete:
  assumes all: "\<forall>k\<in>set load_order.
           \<exists>m sd. submodel_named self k = Some m \<and> saved_dict k = Some sd
                  \<and> snd (load_state_dict m sd) = None"
  shows "snd (load_save_dict self saved_dict) = None
    \<and> (\<forall>k\<in>set load_order.
          \<exists>m sd. submodel_named (fst (load_save_dict self saved_dict)) k = Some m
                 \<and> saved_dict k = Some sd \<and> map_of m = map_of sd)"
proof -
  note ok = load_state_dict_ok
  from all obtain sd1 sd2 sd3 sd4 sd5 sd6 sd7 dm where
    h: "saved_dict ''RSSM'' = Some sd1" "snd (load_state_dict (RSSM self) sd1) = None"
       "saved_dict ''ObsEncoder'' = Some sd2" "snd (load_state_dict (ObsEncoder self) sd2) = None"
       "saved_dict ''ObsDecoder'' = Some sd3" "snd (load_state_dict (ObsDecoder self) sd3) = None"
       "saved_dict ''RewardDecoder'' = Some sd4" "snd (load_state_dict (RewardDecoder self) sd4) = None"
       "saved_dict ''ActionModel'' = Some sd5" "snd (load_state_dict (ActionModel self) sd5) = None"
       "saved_dict ''ValueModel'' = Some sd6" "snd (load_state_dict (ValueModel self) sd6) = None"
       "DiscountModel self = Some dm"
       "saved_dict ''DiscountModel'' = Some sd7" "snd (load_state_dict dm sd7) = None"
    by (auto simp: load_order_def submodel_named_def)
  from h have r: "load_save_dict self saved_dict =
     (self\<lparr>RSSM := fst (load_state_dict (RSSM self) sd1),
           ObsEncoder := fst (load_state_dict (ObsEncoder self) sd2),
           ObsDecoder := fst (load_state_dict (ObsDecoder self) sd3),
           RewardDecoder := fst (load_state_dict (RewardDecoder self) sd4),
           ActionModel := fst (load_state_dict (ActionModel self) sd5),
           ValueModel := fst (load_state_dict (ValueModel self) sd6),
           DiscountModel := Some (fst (load_state_dict dm sd7))\<rparr>,
      None)"
    by (rule all_loaded)
  show ?thesis unfolding r using h
    by (simp add: load_order_def submodel_named_def ok)
qed

lemma example_trainer_models:
  "RSSM example_trainer = [(''w'', [1])]" "ObsEncoder example_trainer = [(''w'', [6])]"
  "ObsDecoder example_trainer = [(''w'', [7])]" "ActionModel example_trainer = [(''w'', [2])]"
  by (simp_all add: example_trainer_def init_attributes_def example_fresh_def)

text \<open>
  Claim C10, with the condition it needs. \<^verbatim>\<open>load_save_dict\<close> restores the sub-models in the
  order \<^verbatim>\<open>RSSM\<close>, \<^verbatim>\<open>ObsEncoder\<close>, \<^verbatim>\<open>ObsDecoder\<close>, \<^verbatim>\<open>RewardDecoder\<close>, \<^verbatim>\<open>ActionModel\<close>,
  \<^verbatim>\<open>ValueModel\<close>, \<^verbatim>\<open>DiscountModel\<close>. From a dictionary that holds all seven entries, each
  fitting its sub-model, the call returns and every one of the seven sub-models holds the
  saved parameters. If \<open>k\<close> is a key the dictionary lacks and the entries before \<open>k\<close> in the
  order load without error, the call ends with \<^verbatim>\<open>KeyError\<close> on \<open>k\<close>, every sub-model before
  \<open>k\<close> holds the loaded parameters, and the sub-models from \<open>k\<close> on are untouched: the failed
  load is not atomic.
\<close>

theorem load_save_dict_in_order:
  assumes dm: "DiscountModel self \<noteq> None"
  shows "((\<forall>k\<in>set load_order.
             \<exists>m sd. submodel_named self k = Some m \<and> saved_dict k = Some sd
                    \<and> snd (load_state_dict m sd) = None)
          \<longrightarrow> snd (load_save_dict self saved_dict) = None
              \<and> (\<forall>k\<in>set load_order.
                    \<exists>m sd. submodel_named (fst (load_save_dict self saved_dict)) k = Some m
                           \<and> saved_dict k = Some sd \<and> map_of m = map_of sd))
    \<and> (k \<in> set load_order \<and> saved_dict k = None
          \<and> (\<forall>k'\<in>set (takeWhile (\<lambda>x. x \<noteq> k) load_order).
                 \<exists>m sd. submodel_named self k' = Some m \<and> saved_dict k' = Some sd
                        \<and> snd (load_state_dict m sd) = None)
          \<longrightarrow> snd (load_save_dict self saved_dict) = Some (KeyError k)
              \<and> (\<forall>k'\<in>set (takeWhile (\<lambda>x. x \<noteq> k) load_order).
                    \<exists>m sd. submodel_named (fst (load_save_dict self saved_dict)) k' = Some m
                           \<and> saved_dict k' = Some sd \<and> map_of m = map_of sd)
              \<and> (\<forall>k'\<in>set (dropWhile (\<lambda>x. x \<noteq> k) load_order).
                    submodel_named (fst (load_save_dict self saved_dict)) k'
                      = submodel_named self k'))"
proof (rule conjI)
  show "(\<forall>k\<in>set load_order.
             \<exists>m sd. submodel_named self k = Some m \<and> saved_dict k = Some sd
                    \<and> snd (load_state_dict m sd) = None)
          \<longrightarrow> snd (load_save_dict self saved_dict) = None
              \<and> (\<forall>k\<in>set load_order.
                    \<exists>m sd. submodel_named (fst (load_save_dict self saved_dict)) k = Some m
                           \<and> saved_dict k = Some sd \<and> map_of m = map_of sd)"
  proof (rule impI)
    assume "\<forall>k\<in>set load_order.
             \<exists>m sd. submodel_named self k = Some m \<and> saved_dict k = Some sd
                    \<and> snd (load_state_dict m sd) = None"
    then show "snd (load_save_dict self saved_dict) = None
              \<and> (\<forall>k\<in>set load_order.
                    \<exists>m sd. submodel_named (fst (load_save_dict self saved_dict)) k = Some m
                           \<and> saved_dict k = Some sd \<and> map_of m = map_of sd)"
      by (rule load_save_dict_complete)
  qed
next
  show "k \<in> set load_order \<and> saved_dict k = None
          \<and> (\<forall>k'\<in>set (takeWhile (\<lambda>x. x \<noteq> k) load_order).
                 \<exists>m sd. submodel_named self k' = Some m \<and> saved_dict k' = Some sd
                        \<and> snd (load_state_dict m sd) = None)
          \<longrightarrow> snd (load_save_dict self saved_dict) = Some (KeyError k)
              \<and> (\<forall>k'\<in>set (takeWhile (\<lambda>x. x \<noteq> k) load_order).
                    \<exists>m sd. submodel_named (fst (load_save_dict self saved_dict)) k' = Some m
                           \<and> saved_dict k' = Some sd \<and> map_of m = map_of sd)
              \<and> (\<forall>k'\<in>set (dropWhile (\<lambda>x. x \<noteq> k) load_order).
                    submodel_named (fst (load_save_dict self saved_dict)) k'
                      = submodel_named self k')"
  proof (rule impI)
    assume a: "k \<in> set load_order \<and> saved_dict k = None
          \<and> (\<forall>k'\<in>set (takeWhile (\<lambda>x. x \<noteq> k) load_order).
                 \<exists>m sd. submodel_named self k' = Some m \<and> saved_dict k' = Some sd
                        \<and> snd (load_state_dict m sd) = None)"
    then have k: "k \<in> set load_order" and m: "saved_dict k = None"
      and p: "\<forall>k'\<in>set (takeWhile (\<lambda>x. x \<noteq> k) load_order).
                 \<exists>m sd. submodel_named self k' = Some m \<and> saved_dict k' = Some sd
                        \<and> snd (load_state_dict m sd) = None"
      by simp_all
    from k m p dm
    show "snd (load_save_dict self saved_dict) = Some (KeyError k)
              \<and> (\<forall>k'\<in>set (takeWhile (\<lambda>x. x \<noteq> k) load_order).
                    \<exists>m sd. submodel_named (fst (load_save_dict self saved_dict)) k' = Some m
                           \<and> saved_dict k' = Some sd \<and> map_of m = map_of sd)
              \<and> (\<forall>k'\<in>set (dropWhile (\<lambda>x. x \<noteq> k) load_order).
                    submodel_named (fst (load_save_dict self saved_dict)) k'
                      = submodel_named self k')"
      by (rule load_save_dict_first_missing)
  qed
qed

text \<open>The complete dictionary, and one that stops after \<^verbatim>\<open>ObsEncoder\<close>.\<close>

theorem load_save_dict_in_order_witness:
  "load_save_dict example_trainer example_saved
     = (example_trainer\<lparr>RSSM := [(''w'', [10])], ObsEncoder := [(''w'', [60])],
          ObsDecoder := [(''w'', [70])], RewardDecoder := [(''w'', [30])],
          ActionModel := [(''w'', [20])], ValueModel := [(''w'', [40]), (''b'', [11, 12])],
          DiscountModel := Some [(''w'', [50])]\<rparr>, None)
   \<and> ''ObsDecoder'' \<in> set load_order
   \<and> load_save_dict example_trainer
        (map_of [(''RSSM'', [(''w'', [10])]), (''ObsEncoder'', [(''w'', [60])])])
      = (example_trainer\<lparr>RSSM := [(''w'', [10])], ObsEncoder := [(''w'', [60])]\<rparr>,
         Some (KeyError ''ObsDecoder''))
   \<and> RSSM example_trainer = [(''w'', [1])]
   \<and> ObsEncoder example_trainer = [(''w'', [6])]"
proof -
  let ?sd = "map_of [(''RSSM'', [(''w'', [10 :: real])]), (''ObsEncoder'', [(''w'', [60])])]"
  have d: "DiscountModel example_trainer \<noteq> None"
    by (simp add: example_trainer_fields)
  have full: "\<forall>k\<in>set load_order.
           \<exists>m sd. submodel_named example_trainer k = Some m \<and> example_saved k = Some sd
                  \<and> snd (load_state_dict m sd) = None"
    by (simp add: load_order_def submodel_named_def example_saved_def load_state_dict_def
        load_param_def param_loadable_def example_trainer_fields example_trainer_models)
  have rfull: "load_save_dict example_trainer example_saved
     = (example_trainer\<lparr>RSSM := [(''w'', [10])], ObsEncoder := [(''w'', [60])],
          ObsDecoder := [(''w'', [70])], RewardDecoder := [(''w'', [30])],
          ActionModel := [(''w'', [20])], ValueModel := [(''w'', [40]), (''b'', [11, 12])],
          DiscountModel := Some [(''w'', [50])]\<rparr>, None)"
    by (simp add: load_save_dict_def load_entry_def example_saved_def load_state_dict_def
        load_param_def param_loadable_def example_trainer_fields example_trainer_models Let_def)
  have k: "''ObsDecoder'' \<in> set load_order"
    by (simp add: load_order_def)
  have m: "?sd ''ObsDecoder'' = None"
    by simp
  have r: "load_save_dict example_trainer ?sd
      = (example_trainer\<lparr>RSSM := [(''w'', [10])], ObsEncoder := [(''w'', [60])]\<rparr>,
         Some (KeyError ''ObsDecoder''))"
    by (simp add: load_save_dict_def load_entry_def load_state_dict_def load_param_def
        param_loadable_def example_trainer_models Let_def)
  have p: "\<forall>k'\<in>set (takeWhile (\<lambda>x. x \<noteq> ''ObsDecoder'') load_order).
           \<exists>m sd. submodel_named example_trainer k' = Some m \<and> ?sd k' = Some sd
                  \<and> snd (load_state_dict m sd) = None"
    by (simp add: load_order_def submodel_named_def load_state_dict_def load_param_def
        param_loadable_def example_trainer_models)
  from load_save_dict_in_order [OF d, of example_saved "''ObsDecoder''"] full rfull
    load_save_dict_in_order [OF d, of ?sd "''ObsDecoder''"] k m p r
  show ?thesis
    by (simp add: example_trainer_models)
qed

text \<open>
  Without the condition the claim fails: here \<^verbatim>\<open>ObsDecoder\<close> is the first missing key, but
  the \<^verbatim>\<open>ObsEncoder\<close> entry before it has the wrong shape, and the call ends with
  \<^verbatim>\<open>RuntimeError\<close> there, \<^verbatim>\<open>RSSM\<close> already overwritten.
\<close>

theorem load_save_dict_runtime_error_before_missing_key:
  "map_of [(''RSSM'', [(''w'', [10 :: real])]), (''ObsEncoder'', [(''w'', [60, 61])])]
     ''ObsDecoder'' = None
   \<and> load_save_dict example_trainer
        (map_of [(''RSSM'', [(''w'', [10])]), (''ObsEncoder'', [(''w'', [60, 61])])])
      = (example_trainer\<lparr>RSSM := [(''w'', [10])]\<rparr>, Some RuntimeError)"
  by (simp add: load_save_dict_def load_entry_def load_state_dict_def load_param_def
      param_loadable_def example_trainer_models Let_def)

end
